theory Spec2Isabelle
  imports Main "HOL-Library.Word"
begin

section \<open>The OTA task of the ESP32 demo application (main.c)\<close>

text \<open>
  The development embeds the part of \<^verbatim>\<open>examples/esp32/apps/memfault_demo_app/main/main.c\<close>
  that runs inside \<^verbatim>\<open>prv_ota_task\<close>: the Wi-Fi auto-join step, the connectivity gate, the
  OTA check with its two handler callbacks, and the handling of the value the check returns;
  and \<^verbatim>\<open>prv_example_task\<close>, the task that exercises the task watchdog.

  Every call the C code makes to a collaborator (LED, logging, metrics, Wi-Fi, restart) is
  recorded, in program order, as an \<open>event\<close> appended to the \<open>trace\<close> field of the state. A
  function that may end in \<^verbatim>\<open>esp_restart()\<close> returns an \<open>exec\<close> value, so that the restart is
  a branch of the model and nothing after it is executed.
\<close>

subsection \<open>Data\<close>

text \<open>The C type \<^verbatim>\<open>int\<close> of the ESP32 toolchain: 32 bits, two's complement.\<close>

type_synonym c_int = "32 word"

text \<open>
  Modelled from the spec: the colour enumeration of \<^verbatim>\<open>led.h\<close>, which is not part of the
  sources at hand. main.c uses the first three constants; section 4.5 of the specification
  lists four colours.
\<close>

datatype led_color = kLedColor_Red | kLedColor_Green | kLedColor_Blue | kLedColor_Off

datatype log_level = kLog_Debug | kLog_Info | kLog_Error

datatype reboot_reason = kMfltRebootReason_FirmwareUpdate

text \<open>
  One constructor per collaborator entry point that the modelled code calls. A log event
  carries the level, the format string and the integer arguments of the call.
\<close>

datatype event =
    Ev_log log_level string "c_int list"
  | Ev_led_set_color led_color
  | Ev_ota_session_metrics_start
  | Ev_ota_session_metrics_end c_int
  | Ev_reboot_mark_reset_imminent reboot_reason
  | Ev_esp_restart
  | Ev_ota_update
  | Ev_record_sync_success
  | Ev_record_sync_failure
  | Ev_trace_event_with_log string string c_int
  | Ev_log_trigger_collection
  | Ev_metric_add string int
  | Ev_wifi_load_creds
  | Ev_wifi_join string string
  | Ev_vTaskDelay_ms nat

text \<open>
  The state the task works on. \<open>led\<close> is the indicator (the last colour handed to
  \<^verbatim>\<open>led_set_color\<close>). The three \<open>session\<close> fields are the state of the metrics session
  tracker behind \<^verbatim>\<open>ota_session_metrics_start/end\<close>: whether a session is open, the result
  codes of the sessions closed so far, and the number of calls the tracker rejected.
\<close>

record world =
  led :: led_color
  session_open :: bool
  session_records :: "c_int list"
  session_rejected :: nat
  trace :: "event list"

text \<open>The compile-time switches that guard the modelled code.\<close>

record config =
  CONFIG_MEMFAULT_APP_OTA :: bool
  CONFIG_MEMFAULT_APP_WIFI_AUTOJOIN :: bool
  CONFIG_MEMFAULT_METRICS_SYNC_SUCCESS :: bool

text \<open>
  The result of running a piece of the task: it either returns a value, or the device
  restarts and the caller never gets control back.
\<close>

datatype 'a exec =
    is_Returns: Returns (result_of: 'a) (world_of: world)
  | Restarted (world_of: world)

definition bind_exec :: "'a exec \<Rightarrow> ('a \<Rightarrow> world \<Rightarrow> 'b exec) \<Rightarrow> 'b exec" where
  "bind_exec m f = (case m of Returns x s \<Rightarrow> f x s | Restarted s \<Rightarrow> Restarted s)"

definition emit :: "event \<Rightarrow> world \<Rightarrow> world" where
  "emit e s = s\<lparr>trace := trace s @ [e]\<rparr>"

text \<open>The events a run from \<open>s\<close> to \<open>s'\<close> has added to the trace.\<close>

definition emitted :: "world \<Rightarrow> world \<Rightarrow> event list" where
  "emitted s s' = drop (length (trace s)) (trace s')"

subsection \<open>Collaborators\<close>

definition MEMFAULT_LOG_DEBUG :: "string \<Rightarrow> world \<Rightarrow> world" where
  "MEMFAULT_LOG_DEBUG msg s = emit (Ev_log kLog_Debug msg []) s"

definition MEMFAULT_LOG_INFO :: "string \<Rightarrow> world \<Rightarrow> world" where
  "MEMFAULT_LOG_INFO msg s = emit (Ev_log kLog_Info msg []) s"

definition MEMFAULT_LOG_INFO_u32 :: "string \<Rightarrow> 32 word \<Rightarrow> world \<Rightarrow> world" where
  "MEMFAULT_LOG_INFO_u32 fmt arg s = emit (Ev_log kLog_Info fmt [arg]) s"

definition MEMFAULT_LOG_ERROR :: "string \<Rightarrow> c_int \<Rightarrow> world \<Rightarrow> world" where
  "MEMFAULT_LOG_ERROR fmt rv s = emit (Ev_log kLog_Error fmt [rv]) s"

text \<open>
  Modelled from the spec: \<^verbatim>\<open>led_set_color\<close> of led.c, which is not part of the sources at
  hand. Section 4.5: one operation \<open>set(color)\<close>, no return value, infallible; section 3: the
  indicator is a single value overwritten by each call.
\<close>

definition led_set_color :: "led_color \<Rightarrow> world \<Rightarrow> world" where
  "led_set_color c s = emit (Ev_led_set_color c) (s\<lparr>led := c\<rparr>)"

text \<open>
  Modelled from the spec: \<^verbatim>\<open>ota_session_metrics_start\<close> and \<^verbatim>\<open>ota_session_metrics_end\<close> of
  ota_session_metrics.c, which is not part of the sources at hand. Section 4.2: \<open>start()\<close>
  fails (logs and no-ops) if a session is already open; \<open>end(result_code)\<close> fails (logs and
  no-ops) if no session is open, otherwise closes it and emits the record. A rejected call
  is counted in \<open>session_rejected\<close>.
\<close>

definition ota_session_metrics_start :: "world \<Rightarrow> world" where
  "ota_session_metrics_start s =
     (let s1 = emit Ev_ota_session_metrics_start s
      in if session_open s1 then s1\<lparr>session_rejected := session_rejected s1 + 1\<rparr>
         else s1\<lparr>session_open := True\<rparr>)"

definition ota_session_metrics_end :: "c_int \<Rightarrow> world \<Rightarrow> world" where
  "ota_session_metrics_end code s =
     (let s1 = emit (Ev_ota_session_metrics_end code) s
      in if session_open s1
         then s1\<lparr>session_open := False, session_records := session_records s1 @ [code]\<rparr>
         else s1\<lparr>session_rejected := session_rejected s1 + 1\<rparr>)"

definition MEMFAULT_REBOOT_MARK_RESET_IMMINENT :: "reboot_reason \<Rightarrow> world \<Rightarrow> world" where
  "MEMFAULT_REBOOT_MARK_RESET_IMMINENT r s = emit (Ev_reboot_mark_reset_imminent r) s"

text \<open>
  Modelled from the spec: \<^verbatim>\<open>esp_restart\<close> of the ESP-IDF, which is not part of the sources at
  hand. Section 6: an irreversible process restart; it does not return to its caller.
\<close>

definition esp_restart :: "world \<Rightarrow> 'a exec" where
  "esp_restart s = Restarted (emit Ev_esp_restart s)"

definition memfault_metrics_connectivity_record_sync_success :: "world \<Rightarrow> world" where
  "memfault_metrics_connectivity_record_sync_success s = emit Ev_record_sync_success s"

definition memfault_metrics_connectivity_record_sync_failure :: "world \<Rightarrow> world" where
  "memfault_metrics_connectivity_record_sync_failure s = emit Ev_record_sync_failure s"

definition MEMFAULT_TRACE_EVENT_WITH_LOG :: "string \<Rightarrow> string \<Rightarrow> c_int \<Rightarrow> world \<Rightarrow> world" where
  "MEMFAULT_TRACE_EVENT_WITH_LOG reason fmt rv s = emit (Ev_trace_event_with_log reason fmt rv) s"

definition memfault_log_trigger_collection :: "world \<Rightarrow> world" where
  "memfault_log_trigger_collection s = emit Ev_log_trigger_collection s"

definition MEMFAULT_METRIC_ADD :: "string \<Rightarrow> int \<Rightarrow> world \<Rightarrow> world" where
  "MEMFAULT_METRIC_ADD key n s = emit (Ev_metric_add key n) s"

definition vTaskDelay_ms :: "nat \<Rightarrow> world \<Rightarrow> world" where
  "vTaskDelay_ms ms s = emit (Ev_vTaskDelay_ms ms) s"

text \<open>
  \<^verbatim>\<open>strnlen(s, maxlen)\<close>: a \<open>string\<close> stands for the bytes before the terminating NUL.
\<close>

definition strnlen :: "string \<Rightarrow> nat \<Rightarrow> nat" where
  "strnlen str maxlen = min (length str) maxlen"

subsection \<open>The auto-join step\<close>

text \<open>
  \<^verbatim>\<open>memfault_esp_port_wifi_autojoin\<close> (main.c, lines 237-253). The results of the three
  collaborator calls are parameters: \<open>connected\<close> is what
  \<^verbatim>\<open>memfault_esp_port_wifi_connected()\<close> answers, \<open>(ssid, pass)\<close> are the pointers
  \<^verbatim>\<open>wifi_load_creds\<close> stores (\<open>None\<close> for \<^verbatim>\<open>NULL\<close>), and \<open>join_result\<close> is what
  \<^verbatim>\<open>wifi_join\<close> returns. The pattern match stands for the short-circuit evaluation of the
  C condition: a string is measured only when its pointer is not \<^verbatim>\<open>NULL\<close>.
\<close>

definition memfault_esp_port_wifi_autojoin ::
  "bool \<Rightarrow> string option \<times> string option \<Rightarrow> bool \<Rightarrow> world \<Rightarrow> world" where
  "memfault_esp_port_wifi_autojoin connected creds join_result s =
     (if connected then s
      else
        let s1 = emit Ev_wifi_load_creds s
        in case creds of
             (Some ssid, Some pass) \<Rightarrow>
               if strnlen ssid 64 = 0 \<or> strnlen pass 64 = 0
               then MEMFAULT_LOG_DEBUG ''No WiFi credentials found'' s1
               else
                 let s2 = MEMFAULT_LOG_DEBUG ''Starting WiFi Autojoin ...'' s1;
                     s3 = emit (Ev_wifi_join ssid pass) s2
                 in if \<not> join_result
                    then MEMFAULT_LOG_DEBUG ''Failed to join WiFi network'' s3
                    else s3
           | _ \<Rightarrow> MEMFAULT_LOG_DEBUG ''No WiFi credentials found'' s1)"

subsection \<open>The update-check capability\<close>

text \<open>
  \<^verbatim>\<open>sMemfaultOtaUpdateHandler\<close>: the two callback slots main.c fills in (\<^verbatim>\<open>user_ctx\<close> is
  \<^verbatim>\<open>NULL\<close> and neither callback reads it).
\<close>

record sMemfaultOtaUpdateHandler =
  handle_update_available :: "world \<Rightarrow> bool exec"
  handle_download_complete :: "world \<Rightarrow> bool exec"

text \<open>
  Modelled from the spec: \<^verbatim>\<open>memfault_esp_port_ota_update\<close> of the ESP port, which is not
  part of the sources at hand. Section 6: a blocking call taking a handler with two callback
  slots and returning an integer (0: no update, 1: update found, negative: error). What the
  call does on a given tick is a parameter, an \<open>ota_behaviour\<close>: it returns a value, or
  invokes one of the callbacks and goes on according to what the callback returned. The
  call touches the state of the task only through the callbacks (section 3: the indicator
  and the session belong to the orchestrator).
\<close>

datatype ota_behaviour =
    Ota_return c_int
  | Ota_call_update_available "bool \<Rightarrow> ota_behaviour"
  | Ota_call_download_complete "bool \<Rightarrow> ota_behaviour"

primrec ota_interact ::
  "ota_behaviour \<Rightarrow> sMemfaultOtaUpdateHandler \<Rightarrow> world \<Rightarrow> c_int exec" where
  "ota_interact (Ota_return rv) handler s = Returns rv s"
| "ota_interact (Ota_call_update_available k) handler s =
     (case handle_update_available handler s of
        Returns b s' \<Rightarrow> ota_interact (k b) handler s'
      | Restarted s' \<Rightarrow> Restarted s')"
| "ota_interact (Ota_call_download_complete k) handler s =
     (case handle_download_complete handler s of
        Returns b s' \<Rightarrow> ota_interact (k b) handler s'
      | Restarted s' \<Rightarrow> Restarted s')"

definition memfault_esp_port_ota_update ::
  "ota_behaviour \<Rightarrow> sMemfaultOtaUpdateHandler \<Rightarrow> world \<Rightarrow> c_int exec" where
  "memfault_esp_port_ota_update beh handler s = ota_interact beh handler (emit Ev_ota_update s)"

subsection \<open>The OTA check\<close>

text \<open>\<^verbatim>\<open>prv_handle_ota_upload_available\<close> (main.c, lines 165-175).\<close>

definition prv_handle_ota_upload_available :: "world \<Rightarrow> bool exec" where
  "prv_handle_ota_upload_available s =
     (let s1 = led_set_color kLedColor_Blue s;
          s2 = MEMFAULT_LOG_INFO ''Starting OTA download ...'' s1;
          s3 = ota_session_metrics_start s2
      in Returns True s3)"

text \<open>
  \<^verbatim>\<open>prv_handle_ota_download_complete\<close> (main.c, lines 177-187). The \<^verbatim>\<open>return true\<close> that
  follows \<^verbatim>\<open>esp_restart()\<close> in the source is the continuation of the bind.
\<close>

definition prv_handle_ota_download_complete :: "world \<Rightarrow> bool exec" where
  "prv_handle_ota_download_complete s =
     (let s1 = MEMFAULT_LOG_INFO ''OTA Update Complete, Rebooting System'' s;
          s2 = ota_session_metrics_end 0 s1;
          s3 = MEMFAULT_REBOOT_MARK_RESET_IMMINENT kMfltRebootReason_FirmwareUpdate s2
      in bind_exec (esp_restart s3) (\<lambda>(_::unit) s4. Returns True s4))"

definition ota_handler :: sMemfaultOtaUpdateHandler where
  "ota_handler =
     \<lparr>handle_update_available = prv_handle_ota_upload_available,
      handle_download_complete = prv_handle_ota_download_complete\<rparr>"

text \<open>
  \<^verbatim>\<open>prv_memfault_ota\<close> (main.c, lines 189-234), in two definitions. The first is the part
  of the function that follows the update check (lines 204-230): the sync metric, guarded by
  \<^verbatim>\<open>CONFIG_MEMFAULT_METRICS_SYNC_SUCCESS\<close>, and the \<^verbatim>\<open>if / else if\<close> chain on \<^verbatim>\<open>rv\<close>, in the
  order of the source; the chain has no final \<^verbatim>\<open>else\<close>. The comparison \<^verbatim>\<open>rv < 0\<close> is the
  signed one.
\<close>

definition prv_memfault_ota_handle_rv :: "config \<Rightarrow> c_int \<Rightarrow> world \<Rightarrow> world" where
  "prv_memfault_ota_handle_rv cfg rv s2 =
     (let s3 = (if CONFIG_MEMFAULT_METRICS_SYNC_SUCCESS cfg
                then (if rv = 0 \<or> rv = 1
                      then memfault_metrics_connectivity_record_sync_success s2
                      else memfault_metrics_connectivity_record_sync_failure s2)
                else s2)
      in if rv = 0 then
           led_set_color kLedColor_Green (MEMFAULT_LOG_INFO ''Up to date!'' s3)
         else if rv = 1 then
           MEMFAULT_LOG_INFO ''Update available!'' s3
         else if sint rv < 0 then
           let s4 = MEMFAULT_LOG_ERROR ''OTA update failed, rv=%d'' rv s3;
               s5 = ota_session_metrics_end rv s4;
               s6 = MEMFAULT_TRACE_EVENT_WITH_LOG ''ota_install_failure'' ''error code=%d'' rv s5;
               s7 = memfault_log_trigger_collection s6
           in led_set_color kLedColor_Red s7
         else s3)"

text \<open>
  The second is the function itself. \<open>connected\<close> is the answer of
  \<^verbatim>\<open>memfault_esp_port_wifi_connected()\<close> at line 190 and \<open>beh\<close> is what the update check does
  when it is called at line 202. Without \<^verbatim>\<open>CONFIG_MEMFAULT_APP_OTA\<close> the function is empty
  (line 233).
\<close>

definition prv_memfault_ota :: "config \<Rightarrow> bool \<Rightarrow> ota_behaviour \<Rightarrow> world \<Rightarrow> unit exec" where
  "prv_memfault_ota cfg connected beh s =
     (if \<not> CONFIG_MEMFAULT_APP_OTA cfg then Returns () s
      else if \<not> connected then Returns () s
      else
        let s1 = MEMFAULT_LOG_INFO ''Checking for OTA Update'' s
        in bind_exec (memfault_esp_port_ota_update beh ota_handler s1)
             (\<lambda>rv s2. Returns () (prv_memfault_ota_handle_rv cfg rv s2)))"

subsection \<open>The task loop\<close>

text \<open>
  What the collaborators answer during one iteration of the loop of \<^verbatim>\<open>prv_ota_task\<close>: the
  connectivity predicate at its three call sites (lines 238, 272 and 190), the stored
  credentials, the result of the join, and the behaviour of the update check.
\<close>

record tick_env =
  connected_autojoin :: bool
  stored_creds :: "string option \<times> string option"
  join_result :: bool
  connected_task :: bool
  connected_ota :: bool
  ota_beh :: ota_behaviour

text \<open>
  The body of the \<^verbatim>\<open>while (true)\<close> loop of \<^verbatim>\<open>prv_ota_task\<close> (main.c, lines 263-281). The
  delay is \<^verbatim>\<open>pdMS_TO_TICKS(60 * 60 * 1000)\<close>, recorded in milliseconds.
\<close>

definition ota_check_interval_ms :: nat where
  "ota_check_interval_ms = 60 * 60 * 1000"

definition prv_ota_task_iteration :: "config \<Rightarrow> tick_env \<Rightarrow> world \<Rightarrow> unit exec" where
  "prv_ota_task_iteration cfg env s =
     (let s1 = MEMFAULT_METRIC_ADD ''PosterTaskNumSchedules'' 1 s;
          s2 = (if CONFIG_MEMFAULT_APP_WIFI_AUTOJOIN cfg
                then memfault_esp_port_wifi_autojoin
                       (connected_autojoin env) (stored_creds env) (join_result env) s1
                else s1)
      in bind_exec
           (if connected_task env
            then prv_memfault_ota cfg (connected_ota env) (ota_beh env) s2
            else Returns () (led_set_color kLedColor_Red s2))
           (\<lambda>_ s3. Returns () (vTaskDelay_ms ota_check_interval_ms s3)))"

text \<open>
  The \<^verbatim>\<open>while (true)\<close> loop of \<^verbatim>\<open>prv_ota_task\<close> (main.c, lines 263-281). The source leaves
  the loop only through the restart and never returns. The function gives the state of the
  task after the iterations whose environments are listed: it is still in the loop
  (\<open>Looping\<close>, about to start the next iteration), or one of these iterations has restarted
  the device (\<open>Rebooted\<close>).
\<close>

datatype task_state = Looping (task_world: world) | Rebooted (task_world: world)

fun prv_ota_task_loop :: "config \<Rightarrow> tick_env list \<Rightarrow> world \<Rightarrow> task_state" where
  "prv_ota_task_loop cfg [] s = Looping s"
| "prv_ota_task_loop cfg (env # envs) s =
     (case prv_ota_task_iteration cfg env s of
        Returns _ s' \<Rightarrow> prv_ota_task_loop cfg envs s'
      | Restarted s' \<Rightarrow> Rebooted s')"

text \<open>
  \<^verbatim>\<open>prv_ota_task\<close> (main.c, lines 258-282): the log line of lines 259-261, then the loop.
  \<open>ota_check_interval\<close> is the local constant of that name, the value of
  \<^verbatim>\<open>pdMS_TO_TICKS(60 * 60 * 1000)\<close>; the number of ticks depends on the tick rate of the
  build and is a parameter. The conversion \<^verbatim>\<open>PRIu32\<close> of the format is written \<open>u\<close>.
\<close>

definition prv_ota_task :: "config \<Rightarrow> 32 word \<Rightarrow> tick_env list \<Rightarrow> world \<Rightarrow> task_state" where
  "prv_ota_task cfg ota_check_interval envs s =
     prv_ota_task_loop cfg envs
       (MEMFAULT_LOG_INFO_u32 ''OTA task up and running every %us.'' ota_check_interval s)"

subsection \<open>The task watchdog example\<close>

text \<open>
  Modelled from the spec: the watchdog entry of a supervised task and the operations on it
  (\<^verbatim>\<open>MEMFAULT_TASK_WATCHDOG_START\<close>, \<^verbatim>\<open>MEMFAULT_TASK_WATCHDOG_STOP\<close> and the test made by
  \<^verbatim>\<open>memfault_task_watchdog_check_all\<close>), which are not part of the sources at hand.
  Section 3: an entry has a state, Armed or Disarmed, and a \<open>last_reset_tick\<close>. Section 4.4:
  \<open>start\<close> arms the entry and stamps \<open>last_reset_tick\<close> with the current time, also when the
  entry is armed already; \<open>stop\<close> disarms it unconditionally; the checker reports an armed
  entry as stuck when the time since \<open>last_reset_tick\<close> exceeds the timeout, and never
  changes the entry. Time is counted in milliseconds.
\<close>

datatype wd_state = Armed | Disarmed

record WatchdogEntry =
  wd_state :: wd_state
  last_reset_tick :: nat

definition memfault_task_watchdog_start :: "nat \<Rightarrow> WatchdogEntry \<Rightarrow> WatchdogEntry" where
  "memfault_task_watchdog_start now e = e\<lparr>wd_state := Armed, last_reset_tick := now\<rparr>"

definition memfault_task_watchdog_stop :: "WatchdogEntry \<Rightarrow> WatchdogEntry" where
  "memfault_task_watchdog_stop e = e\<lparr>wd_state := Disarmed\<rparr>"

definition watchdog_entry_stuck :: "nat \<Rightarrow> nat \<Rightarrow> WatchdogEntry \<Rightarrow> bool" where
  "watchdog_entry_stuck timeout now e =
     (wd_state e = Armed \<and> timeout < now - last_reset_tick e)"

datatype example_event =
    Ex_create_recursive_mutex
  | Ex_log_info string "nat list"
  | Ex_watchdog_start
  | Ex_semaphore_take
  | Ex_semaphore_give
  | Ex_watchdog_stop
  | Ex_vTaskDelay_ms nat

text \<open>
  The state of the example task: its watchdog entry, the current time, the calls made so
  far, and \<open>checker_views\<close>. Only the two blocking calls of the loop take time
  (\<^verbatim>\<open>xSemaphoreTakeRecursive\<close> and \<^verbatim>\<open>vTaskDelay\<close>); each of them appends to \<open>checker_views\<close>
  the entry as it stands during the call together with the instants at which the call
  begins and ends. The timer callback \<^verbatim>\<open>prv_task_watchdog_timer_callback\<close> (lines 323-325)
  runs in another context: a run of the checker at an instant \<open>t\<close> reads the entry of a view
  whose interval contains \<open>t\<close>.
\<close>

record example_world =
  watchdog_entry :: WatchdogEntry
  clock :: nat
  example_trace :: "example_event list"
  checker_views :: "(WatchdogEntry \<times> nat \<times> nat) list"

datatype example_run =
    Example_looping (example_world_of: example_world)
  | Example_blocked (example_world_of: example_world)
  | Example_asserted (example_world_of: example_world)

definition example_emit :: "example_event \<Rightarrow> example_world \<Rightarrow> example_world" where
  "example_emit e s = s\<lparr>example_trace := example_trace s @ [e]\<rparr>"

definition MEMFAULT_TASK_WATCHDOG_START :: "example_world \<Rightarrow> example_world" where
  "MEMFAULT_TASK_WATCHDOG_START s =
     example_emit Ex_watchdog_start
       (s\<lparr>watchdog_entry := memfault_task_watchdog_start (clock s) (watchdog_entry s)\<rparr>)"

definition MEMFAULT_TASK_WATCHDOG_STOP :: "example_world \<Rightarrow> example_world" where
  "MEMFAULT_TASK_WATCHDOG_STOP s =
     example_emit Ex_watchdog_stop
       (s\<lparr>watchdog_entry := memfault_task_watchdog_stop (watchdog_entry s)\<rparr>)"

text \<open>
  \<^verbatim>\<open>xSemaphoreTakeRecursive(g_example_task_lock, portMAX_DELAY)\<close>: the call blocks until the
  lock is free. \<open>blocked\<close> is how long that takes, a parameter: \<open>Some d\<close> for \<open>d\<close>
  milliseconds, \<open>None\<close> when the lock is never released to the task, in which case the call
  does not return.
\<close>

definition xSemaphoreTakeRecursive :: "nat option \<Rightarrow> example_world \<Rightarrow> example_run" where
  "xSemaphoreTakeRecursive blocked s =
     (case blocked of
        None \<Rightarrow> Example_blocked (example_emit Ex_semaphore_take s)
      | Some d \<Rightarrow>
          Example_looping
            (example_emit Ex_semaphore_take
               (s\<lparr>clock := clock s + d,
                  checker_views :=
                    checker_views s @ [(watchdog_entry s, clock s, clock s + d)]\<rparr>)))"

definition xSemaphoreGiveRecursive :: "example_world \<Rightarrow> example_world" where
  "xSemaphoreGiveRecursive s = example_emit Ex_semaphore_give s"

definition example_vTaskDelay_ms :: "nat \<Rightarrow> example_world \<Rightarrow> example_world" where
  "example_vTaskDelay_ms ms s =
     example_emit (Ex_vTaskDelay_ms ms)
       (s\<lparr>clock := clock s + ms,
          checker_views := checker_views s @ [(watchdog_entry s, clock s, clock s + ms)]\<rparr>)"

text \<open>
  The body of the \<^verbatim>\<open>while (true)\<close> loop of \<^verbatim>\<open>prv_example_task\<close> (main.c, lines 307-320), in
  the order of the source: start, take, give, stop, delay. The delay is
  \<^verbatim>\<open>interval_ms / portTICK_PERIOD_MS\<close> ticks with \<^verbatim>\<open>interval_ms = 250\<close>, recorded in
  milliseconds.
\<close>

definition interval_ms :: nat where
  "interval_ms = 250"

definition prv_example_task_iteration :: "nat option \<Rightarrow> example_world \<Rightarrow> example_run" where
  "prv_example_task_iteration blocked s =
     (let s1 = MEMFAULT_TASK_WATCHDOG_START s
      in case xSemaphoreTakeRecursive blocked s1 of
           Example_looping s2 \<Rightarrow>
             let s3 = xSemaphoreGiveRecursive s2;
                 s4 = MEMFAULT_TASK_WATCHDOG_STOP s3
             in Example_looping (example_vTaskDelay_ms interval_ms s4)
         | Example_blocked s2 \<Rightarrow> Example_blocked s2
         | Example_asserted s2 \<Rightarrow> Example_asserted s2)"

text \<open>
  The loop, for the iterations whose blocking times are listed; an iteration that blocks
  for ever ends the run there.
\<close>

fun prv_example_task_loop :: "nat option list \<Rightarrow> example_world \<Rightarrow> example_run" where
  "prv_example_task_loop [] s = Example_looping s"
| "prv_example_task_loop (blocked # rest) s =
     (case prv_example_task_iteration blocked s of
        Example_looping s' \<Rightarrow> prv_example_task_loop rest s'
      | Example_blocked s' \<Rightarrow> Example_blocked s'
      | Example_asserted s' \<Rightarrow> Example_asserted s')"

text \<open>
  \<^verbatim>\<open>prv_example_task\<close> (main.c, lines 289-321). \<open>created\<close> tells whether the creation of the
  recursive mutex returned a handle; on \<^verbatim>\<open>NULL\<close> the \<^verbatim>\<open>MEMFAULT_ASSERT\<close> of line 300 stops the
  task.
\<close>

definition prv_example_task :: "bool \<Rightarrow> nat option list \<Rightarrow> example_world \<Rightarrow> example_run" where
  "prv_example_task created blocks s =
     (let s1 = example_emit Ex_create_recursive_mutex s
      in if \<not> created then Example_asserted s1
         else prv_example_task_loop blocks
                (example_emit
                   (Ex_log_info ''Task watchdog example task running every %ums.'' [interval_ms])
                   s1))"

subsection \<open>Vocabulary for the statements\<close>

text \<open>
  What a behaviour of the update check amounts to when it is run against the handler of
  main.c, whose first callback answers \<^verbatim>\<open>true\<close> and whose second callback restarts the
  device: the value the call returns (\<open>None\<close> when it reaches the download-complete
  callback and therefore never returns), and the number of times it invokes the
  update-available callback before that.
\<close>

primrec ota_return_value :: "ota_behaviour \<Rightarrow> c_int option" where
  "ota_return_value (Ota_return rv) = Some rv"
| "ota_return_value (Ota_call_update_available k) = ota_return_value (k True)"
| "ota_return_value (Ota_call_download_complete k) = None"

primrec update_available_calls :: "ota_behaviour \<Rightarrow> nat" where
  "update_available_calls (Ota_return rv) = 0"
| "update_available_calls (Ota_call_update_available k) = Suc (update_available_calls (k True))"
| "update_available_calls (Ota_call_download_complete k) = 0"

text \<open>The state after \<open>n\<close> consecutive runs of the update-available callback.\<close>

primrec upload_available_times :: "nat \<Rightarrow> world \<Rightarrow> world" where
  "upload_available_times 0 s = s"
| "upload_available_times (Suc n) s =
     upload_available_times n (world_of (prv_handle_ota_upload_available s))"

text \<open>
  The state of an iteration when it reaches the connectivity gate at line 272, and the state
  of \<^verbatim>\<open>prv_memfault_ota\<close>, started in \<open>s\<close>, when the update check has made its last call to
  the update-available callback.
\<close>

definition at_gate :: "config \<Rightarrow> tick_env \<Rightarrow> world \<Rightarrow> world" where
  "at_gate cfg env s =
     (if CONFIG_MEMFAULT_APP_WIFI_AUTOJOIN cfg
      then memfault_esp_port_wifi_autojoin
             (connected_autojoin env) (stored_creds env) (join_result env)
             (MEMFAULT_METRIC_ADD ''PosterTaskNumSchedules'' 1 s)
      else MEMFAULT_METRIC_ADD ''PosterTaskNumSchedules'' 1 s)"

definition after_callbacks :: "ota_behaviour \<Rightarrow> world \<Rightarrow> world" where
  "after_callbacks beh s =
     upload_available_times (update_available_calls beh)
       (emit Ev_ota_update (MEMFAULT_LOG_INFO ''Checking for OTA Update'' s))"

text \<open>The events of one run of each callback, in program order.\<close>

definition upload_available_events :: "event list" where
  "upload_available_events =
     [Ev_led_set_color kLedColor_Blue,
      Ev_log kLog_Info ''Starting OTA download ...'' [],
      Ev_ota_session_metrics_start]"

definition download_complete_events :: "event list" where
  "download_complete_events =
     [Ev_log kLog_Info ''OTA Update Complete, Rebooting System'' [],
      Ev_ota_session_metrics_end 0,
      Ev_reboot_mark_reset_imminent kMfltRebootReason_FirmwareUpdate,
      Ev_esp_restart]"

text \<open>\<open>ends_with xs ys\<close>: the list \<open>xs\<close> ends with the block \<open>ys\<close>.\<close>

definition ends_with :: "'a list \<Rightarrow> 'a list \<Rightarrow> bool" where
  "ends_with xs ys = (length ys \<le> length xs \<and> drop (length xs - length ys) xs = ys)"

text \<open>The update check is invoked in an iteration: the gate is open at both call sites.\<close>

definition update_check_runs :: "config \<Rightarrow> tick_env \<Rightarrow> bool" where
  "update_check_runs cfg env =
     (CONFIG_MEMFAULT_APP_OTA cfg \<and> connected_task env \<and> connected_ota env)"

text \<open>
  A behaviour that settles the session it opens: once it has invoked the update-available
  callback it either reaches the download-complete callback or returns a negative value.
\<close>

definition settles_session :: "ota_behaviour \<Rightarrow> bool" where
  "settles_session beh =
     (if update_available_calls beh = 0 then True
      else case ota_return_value beh of None \<Rightarrow> True | Some rv \<Rightarrow> sint rv < 0)"

text \<open>The views the checker is offered during a run from \<open>s\<close> to \<open>s'\<close>.\<close>

definition new_views :: "example_world \<Rightarrow> example_world \<Rightarrow> (WatchdogEntry \<times> nat \<times> nat) list" where
  "new_views s s' = drop (length (checker_views s)) (checker_views s')"

text \<open>
  Modelled from the spec: the number of sessions that are open after the tracker of
  section 4.2 has served the session calls of a trace, when \<open>n\<close> were open before. A start
  is accepted only when no session is open; an end closes one session when one is open.
\<close>

fun tracker_replay :: "nat \<Rightarrow> event list \<Rightarrow> nat" where
  "tracker_replay n [] = n"
| "tracker_replay n (Ev_ota_session_metrics_start # es) =
     tracker_replay (if n = 0 then 1 else n) es"
| "tracker_replay n (Ev_ota_session_metrics_end code # es) =
     tracker_replay (if n = 0 then 0 else n - 1) es"
| "tracker_replay n (e # es) = tracker_replay n es"

text \<open>The number of sessions open in a state.\<close>

definition session_count :: "world \<Rightarrow> nat" where
  "session_count s = (if session_open s then 1 else 0)"

text \<open>
  The run from \<open>s\<close> to \<open>s'\<close> only extends the trace, and the session slot of \<open>s'\<close> is what
  the tracker arrives at when it serves the session calls the run has added.
\<close>

definition follows_tracker :: "world \<Rightarrow> world \<Rightarrow> bool" where
  "follows_tracker s s' =
     (take (length (trace s)) (trace s') = trace s \<and>
      session_count s' = tracker_replay (session_count s) (emitted s s'))"

subsection \<open>Concrete inputs\<close>

definition world0 :: world where
  "world0 = \<lparr>led = kLedColor_Off, session_open = False, session_records = [],
             session_rejected = 0, trace = []\<rparr>"

definition config_all :: config where
  "config_all = \<lparr>CONFIG_MEMFAULT_APP_OTA = True, CONFIG_MEMFAULT_APP_WIFI_AUTOJOIN = True,
                 CONFIG_MEMFAULT_METRICS_SYNC_SUCCESS = True\<rparr>"

definition config_no_sync_metric :: config where
  "config_no_sync_metric = config_all\<lparr>CONFIG_MEMFAULT_METRICS_SYNC_SUCCESS := False\<rparr>"

text \<open>An iteration on a connected device, as a function of what the update check does.\<close>

definition tick_connected :: "ota_behaviour \<Rightarrow> tick_env" where
  "tick_connected beh =
     \<lparr>connected_autojoin = True, stored_creds = (None, None), join_result = False,
      connected_task = True, connected_ota = True, ota_beh = beh\<rparr>"

text \<open>An iteration on a device that is not connected and has no stored credentials.\<close>

definition tick_offline :: tick_env where
  "tick_offline =
     \<lparr>connected_autojoin = False, stored_creds = (None, None), join_result = False,
      connected_task = False, connected_ota = False, ota_beh = Ota_return 0\<rparr>"

text \<open>The update check finds an update, starts it and returns 1.\<close>

definition beh_update_pending :: ota_behaviour where
  "beh_update_pending = Ota_call_update_available (\<lambda>_. Ota_return 1)"

text \<open>The update check finds an update and the download fails with code -3.\<close>

definition beh_download_fails :: ota_behaviour where
  "beh_download_fails = Ota_call_update_available (\<lambda>_. Ota_return (- 3))"

text \<open>The update check finds an update, downloads it and reports completion.\<close>

definition beh_download_completes :: ota_behaviour where
  "beh_download_completes =
     Ota_call_update_available (\<lambda>go.
       if go then Ota_call_download_complete (\<lambda>ok. Ota_return (if ok then 1 else - 1))
       else Ota_return 1)"

text \<open>The example task at time 0, its entry registered and not armed.\<close>

definition example_world0 :: example_world where
  "example_world0 =
     \<lparr>watchdog_entry = \<lparr>wd_state = Disarmed, last_reset_tick = 0\<rparr>, clock = 0,
      example_trace = [], checker_views = []\<rparr>"

section \<open>Properties\<close>

subsection \<open>Auxiliary facts\<close>

lemmas collaborator_defs =
  emit_def MEMFAULT_LOG_DEBUG_def MEMFAULT_LOG_INFO_def MEMFAULT_LOG_INFO_u32_def
  MEMFAULT_LOG_ERROR_def
  led_set_color_def ota_session_metrics_start_def ota_session_metrics_end_def
  MEMFAULT_REBOOT_MARK_RESET_IMMINENT_def esp_restart_def
  memfault_metrics_connectivity_record_sync_success_def
  memfault_metrics_connectivity_record_sync_failure_def
  MEMFAULT_TRACE_EVENT_WITH_LOG_def memfault_log_trigger_collection_def
  MEMFAULT_METRIC_ADD_def vTaskDelay_ms_def

lemma emitted_append: "trace s' = trace s @ es \<Longrightarrow> emitted s s' = es"
  by (simp add: emitted_def)

lemma ends_with_append: "ends_with (xs @ ys) ys"
  by (simp add: ends_with_def)

lemma ends_with_emitted: "trace s' = trace s @ pre @ suf \<Longrightarrow> ends_with (emitted s s') suf"
  by (simp add: emitted_def ends_with_def)

lemma set_concat_replicate: "set (concat (replicate n xs)) = (if n = 0 then {} else set xs)"
  by (induction n) auto

lemma upload_available_result:
  "prv_handle_ota_upload_available s =
     Returns True
       (s\<lparr>led := kLedColor_Blue, session_open := True,
          session_rejected := (if session_open s then session_rejected s + 1 else session_rejected s),
          trace := trace s @ upload_available_events\<rparr>)"
  by (simp add: prv_handle_ota_upload_available_def collaborator_defs upload_available_events_def)

lemma download_complete_result:
  "prv_handle_ota_download_complete s =
     Restarted
       (s\<lparr>session_open := False,
          session_records := (if session_open s then session_records s @ [0] else session_records s),
          session_rejected := (if session_open s then session_rejected s else session_rejected s + 1),
          trace := trace s @ download_complete_events\<rparr>)"
  by (simp add: prv_handle_ota_download_complete_def collaborator_defs download_complete_events_def bind_exec_def)

lemma upload_available_times_led:
  "led (upload_available_times n s) = (if n = 0 then led s else kLedColor_Blue)"
  by (induction n arbitrary: s) (simp_all add: upload_available_result)

lemma upload_available_times_open:
  "session_open (upload_available_times n s) = (session_open s \<or> 0 < n)"
  by (induction n arbitrary: s) (simp_all add: upload_available_result)

lemma upload_available_times_records:
  "session_records (upload_available_times n s) = session_records s"
  by (induction n arbitrary: s) (simp_all add: upload_available_result)

lemma upload_available_times_trace:
  "trace (upload_available_times n s) = trace s @ concat (replicate n upload_available_events)"
  by (induction n arbitrary: s) (simp_all add: upload_available_result)

lemmas upload_available_times_simps =
  upload_available_times_led upload_available_times_open
  upload_available_times_records upload_available_times_trace

lemma ota_interact_returns:
  "ota_return_value beh = Some rv \<Longrightarrow>
   ota_interact beh ota_handler s = Returns rv (upload_available_times (update_available_calls beh) s)"
proof (induction beh arbitrary: s)
  case (Ota_return x)
  then show ?case by simp
next
  case (Ota_call_update_available k)
  have "k True \<in> range k" by simp
  from Ota_call_update_available.IH [OF this] Ota_call_update_available.prems
  show ?case by (simp add: ota_handler_def upload_available_result)
next
  case (Ota_call_download_complete k)
  then show ?case by simp
qed

lemma ota_interact_restarts:
  "ota_return_value beh = None \<Longrightarrow>
   ota_interact beh ota_handler s =
     Restarted (world_of (prv_handle_ota_download_complete
                            (upload_available_times (update_available_calls beh) s)))"
proof (induction beh arbitrary: s)
  case (Ota_return x)
  then show ?case by simp
next
  case (Ota_call_update_available k)
  have "k True \<in> range k" by simp
  from Ota_call_update_available.IH [OF this] Ota_call_update_available.prems
  show ?case by (simp add: ota_handler_def upload_available_result)
next
  case (Ota_call_download_complete k)
  then show ?case by (simp add: ota_handler_def download_complete_result)
qed

text \<open>
  The vocabulary agrees with the model of the call: run against the handler of main.c, the
  update check returns \<open>rv\<close> exactly when \<open>ota_return_value\<close> says so, after
  \<open>update_available_calls\<close> runs of the first callback, and restarts the device otherwise.
\<close>

lemma ota_update_run:
  "memfault_esp_port_ota_update beh ota_handler s =
     (case ota_return_value beh of
        Some rv \<Rightarrow>
          Returns rv (upload_available_times (update_available_calls beh) (emit Ev_ota_update s))
      | None \<Rightarrow>
          Restarted (world_of (prv_handle_ota_download_complete
            (upload_available_times (update_available_calls beh) (emit Ev_ota_update s)))))"
  by (simp add: memfault_esp_port_ota_update_def ota_interact_returns ota_interact_restarts
        split: option.splits)

lemma strnlen_64_eq_0: "strnlen str 64 = 0 \<longleftrightarrow> str = []"
  by (cases str) (simp_all add: strnlen_def)


lemma autojoin_frame:
  "led (memfault_esp_port_wifi_autojoin c creds jr s) = led s"
  "session_open (memfault_esp_port_wifi_autojoin c creds jr s) = session_open s"
  "session_records (memfault_esp_port_wifi_autojoin c creds jr s) = session_records s"
  "session_rejected (memfault_esp_port_wifi_autojoin c creds jr s) = session_rejected s"
  by (simp_all add: memfault_esp_port_wifi_autojoin_def collaborator_defs Let_def
        split: prod.splits option.splits)

lemma autojoin_trace:
  "\<exists>es. trace (memfault_esp_port_wifi_autojoin c creds jr s) = trace s @ es \<and>
        Ev_ota_update \<notin> set es \<and> Ev_ota_session_metrics_start \<notin> set es \<and>
        (\<forall>code. Ev_ota_session_metrics_end code \<notin> set es) \<and> Ev_esp_restart \<notin> set es"
  by (cases creds; cases "fst creds"; cases "snd creds")
     (simp_all add: memfault_esp_port_wifi_autojoin_def collaborator_defs Let_def)

lemma handle_rv_no_update:
  "prv_memfault_ota_handle_rv cfg 0 s =
     s\<lparr>led := kLedColor_Green,
       trace := trace s @
         (if CONFIG_MEMFAULT_METRICS_SYNC_SUCCESS cfg then [Ev_record_sync_success] else []) @
         [Ev_log kLog_Info ''Up to date!'' [], Ev_led_set_color kLedColor_Green]\<rparr>"
  by (simp add: prv_memfault_ota_handle_rv_def collaborator_defs)

lemma handle_rv_update_pending:
  "prv_memfault_ota_handle_rv cfg 1 s =
     s\<lparr>trace := trace s @
         (if CONFIG_MEMFAULT_METRICS_SYNC_SUCCESS cfg then [Ev_record_sync_success] else []) @
         [Ev_log kLog_Info ''Update available!'' []]\<rparr>"
  by (simp add: prv_memfault_ota_handle_rv_def collaborator_defs)

lemma sint_neg_not_0_1: "sint (rv :: c_int) < 0 \<Longrightarrow> rv \<noteq> 0 \<and> rv \<noteq> 1"
  by auto

lemma handle_rv_failure:
  "sint rv < 0 \<Longrightarrow>
   prv_memfault_ota_handle_rv cfg rv s =
     s\<lparr>led := kLedColor_Red,
       session_open := False,
       session_records := (if session_open s then session_records s @ [rv] else session_records s),
       session_rejected := (if session_open s then session_rejected s else session_rejected s + 1),
       trace := trace s @
         (if CONFIG_MEMFAULT_METRICS_SYNC_SUCCESS cfg then [Ev_record_sync_failure] else []) @
         [Ev_log kLog_Error ''OTA update failed, rv=%d'' [rv],
          Ev_ota_session_metrics_end rv,
          Ev_trace_event_with_log ''ota_install_failure'' ''error code=%d'' rv,
          Ev_log_trigger_collection,
          Ev_led_set_color kLedColor_Red]\<rparr>"
  using sint_neg_not_0_1 [of rv]
  by (simp add: prv_memfault_ota_handle_rv_def collaborator_defs Let_def)

lemma handle_rv_other:
  "0 < sint rv \<Longrightarrow> rv \<noteq> 1 \<Longrightarrow>
   prv_memfault_ota_handle_rv cfg rv s =
     s\<lparr>trace := trace s @
         (if CONFIG_MEMFAULT_METRICS_SYNC_SUCCESS cfg then [Ev_record_sync_failure] else [])\<rparr>"
  by (auto simp add: prv_memfault_ota_handle_rv_def collaborator_defs)

lemma prv_memfault_ota_runs:
  assumes "CONFIG_MEMFAULT_APP_OTA cfg"
  shows "prv_memfault_ota cfg True beh s =
     (case ota_return_value beh of
        Some rv \<Rightarrow> Returns () (prv_memfault_ota_handle_rv cfg rv (after_callbacks beh s))
      | None \<Rightarrow> Restarted (world_of (prv_handle_ota_download_complete (after_callbacks beh s))))"
proof (cases "ota_return_value beh")
  case None
  from ota_interact_restarts [OF None] assms None show ?thesis
    by (simp add: prv_memfault_ota_def memfault_esp_port_ota_update_def bind_exec_def
          after_callbacks_def)
next
  case (Some rv)
  from ota_interact_returns [OF Some] assms Some show ?thesis
    by (simp add: prv_memfault_ota_def memfault_esp_port_ota_update_def bind_exec_def
          after_callbacks_def)
qed

lemma iteration_at_gate:
  "prv_ota_task_iteration cfg env s =
     bind_exec
       (if connected_task env
        then prv_memfault_ota cfg (connected_ota env) (ota_beh env) (at_gate cfg env s)
        else Returns () (led_set_color kLedColor_Red (at_gate cfg env s)))
       (\<lambda>_ s3. Returns () (vTaskDelay_ms ota_check_interval_ms s3))"
  by (simp add: prv_ota_task_iteration_def at_gate_def Let_def)

lemma iteration_runs_check:
  assumes "update_check_runs cfg env"
  shows "prv_ota_task_iteration cfg env s =
     (case ota_return_value (ota_beh env) of
        Some rv \<Rightarrow>
          Returns () (vTaskDelay_ms ota_check_interval_ms
            (prv_memfault_ota_handle_rv cfg rv (after_callbacks (ota_beh env) (at_gate cfg env s))))
      | None \<Rightarrow>
          Restarted (world_of (prv_handle_ota_download_complete
            (after_callbacks (ota_beh env) (at_gate cfg env s)))))"
  using assms
  by (simp add: iteration_at_gate update_check_runs_def prv_memfault_ota_runs bind_exec_def
        split: option.splits)

lemma iteration_skips_check:
  assumes "\<not> update_check_runs cfg env"
  shows "prv_ota_task_iteration cfg env s =
     Returns () (vTaskDelay_ms ota_check_interval_ms
       (if connected_task env then at_gate cfg env s
        else led_set_color kLedColor_Red (at_gate cfg env s)))"
  using assms
  by (auto simp add: iteration_at_gate update_check_runs_def prv_memfault_ota_def bind_exec_def)

lemma at_gate_frame:
  "led (at_gate cfg env s) = led s"
  "session_open (at_gate cfg env s) = session_open s"
  "session_records (at_gate cfg env s) = session_records s"
  "session_rejected (at_gate cfg env s) = session_rejected s"
  by (simp_all add: at_gate_def autojoin_frame collaborator_defs)

lemma at_gate_trace:
  "\<exists>es. trace (at_gate cfg env s) = trace s @ es \<and>
        Ev_ota_update \<notin> set es \<and> Ev_ota_session_metrics_start \<notin> set es \<and>
        (\<forall>code. Ev_ota_session_metrics_end code \<notin> set es) \<and> Ev_esp_restart \<notin> set es"
proof (cases "CONFIG_MEMFAULT_APP_WIFI_AUTOJOIN cfg")
  case False
  then show ?thesis by (simp add: at_gate_def collaborator_defs)
next
  case True
  obtain es where
    "trace (memfault_esp_port_wifi_autojoin (connected_autojoin env) (stored_creds env)
              (join_result env) (MEMFAULT_METRIC_ADD ''PosterTaskNumSchedules'' 1 s)) =
       trace (MEMFAULT_METRIC_ADD ''PosterTaskNumSchedules'' 1 s) @ es"
    "Ev_ota_update \<notin> set es" "Ev_ota_session_metrics_start \<notin> set es"
    "\<forall>code. Ev_ota_session_metrics_end code \<notin> set es" "Ev_esp_restart \<notin> set es"
    using autojoin_trace by blast
  with True show ?thesis
    by (simp add: at_gate_def collaborator_defs)
qed

lemma after_callbacks_frame:
  "led (after_callbacks beh s) = (if update_available_calls beh = 0 then led s else kLedColor_Blue)"
  "session_open (after_callbacks beh s) = (session_open s \<or> 0 < update_available_calls beh)"
  "session_records (after_callbacks beh s) = session_records s"
  "trace (after_callbacks beh s) =
     trace s @ [Ev_log kLog_Info ''Checking for OTA Update'' [], Ev_ota_update] @
     concat (replicate (update_available_calls beh) upload_available_events)"
  by (simp_all add: after_callbacks_def upload_available_times_simps collaborator_defs)

lemmas tick_inputs_defs =
  world0_def config_all_def config_no_sync_metric_def tick_connected_def tick_offline_def
  beh_update_pending_def beh_download_fails_def beh_download_completes_def

lemma iteration_returns_trace:
  assumes "update_check_runs cfg env" and "ota_return_value (ota_beh env) = Some rv"
  shows "prv_ota_task_iteration cfg env s =
           Returns () (vTaskDelay_ms ota_check_interval_ms
             (prv_memfault_ota_handle_rv cfg rv (after_callbacks (ota_beh env) (at_gate cfg env s))))"
  using assms by (simp add: iteration_runs_check)

lemma rv_cases:
  fixes rv :: c_int
  obtains "rv = 0" | "rv = 1" | "sint rv < 0" | "0 < sint rv" "rv \<noteq> 1"
proof -
  have "sint rv = 0 \<Longrightarrow> rv = 0"
    by (simp add: signed_eq_0_iff)
  then show ?thesis
    using that by (cases "sint rv < 0"; cases "rv = 1") fastforce+
qed

lemma handle_rv_session_open:
  "session_open (prv_memfault_ota_handle_rv cfg rv s) = (session_open s \<and> \<not> sint rv < 0)"
proof -
  consider "rv = 0" | "rv = 1" | "sint rv < 0" | "0 < sint rv" "rv \<noteq> 1"
    by (rule rv_cases)
  then show ?thesis
  proof cases
    case 1
    then show ?thesis by (simp add: handle_rv_no_update)
  next
    case 2
    then show ?thesis by (simp add: handle_rv_update_pending)
  next
    case 3
    then show ?thesis by (simp add: handle_rv_failure)
  next
    case 4
    then show ?thesis by (simp add: handle_rv_other)
  qed
qed

lemma handle_rv_no_start:
  "\<exists>es. trace (prv_memfault_ota_handle_rv cfg rv s) = trace s @ es \<and>
        Ev_ota_session_metrics_start \<notin> set es"
proof -
  consider "rv = 0" | "rv = 1" | "sint rv < 0" | "0 < sint rv" "rv \<noteq> 1"
    by (rule rv_cases)
  then show ?thesis
  proof cases
    case 1
    then show ?thesis by (simp add: handle_rv_no_update)
  next
    case 2
    then show ?thesis by (simp add: handle_rv_update_pending)
  next
    case 3
    then show ?thesis by (simp add: handle_rv_failure)
  next
    case 4
    then show ?thesis by (simp add: handle_rv_other)
  qed
qed

lemma iteration_settles:
  assumes "\<not> session_open s" and "settles_session (ota_beh env)"
  shows "\<not> session_open (world_of (prv_ota_task_iteration cfg env s))"
proof (cases "update_check_runs cfg env")
  case False
  then show ?thesis
    using assms(1) by (simp add: iteration_skips_check collaborator_defs at_gate_frame)
next
  case True
  show ?thesis
  proof (cases "ota_return_value (ota_beh env)")
    case None
    then show ?thesis
      by (simp add: iteration_runs_check [OF True] download_complete_result)
  next
    case (Some rv)
    with assms show ?thesis
      by (auto simp add: iteration_runs_check [OF True] collaborator_defs handle_rv_session_open
            after_callbacks_frame at_gate_frame settles_session_def split: if_splits)
  qed
qed

lemma iteration_start_iff:
  "Ev_ota_session_metrics_start \<in> set (emitted s (world_of (prv_ota_task_iteration cfg env s)))
     \<longleftrightarrow> update_check_runs cfg env \<and> 0 < update_available_calls (ota_beh env)"
proof -
  let ?r = "prv_ota_task_iteration cfg env s"
  let ?n = "update_available_calls (ota_beh env)"
  let ?s2 = "after_callbacks (ota_beh env) (at_gate cfg env s)"
  obtain es where es: "trace (at_gate cfg env s) = trace s @ es"
    "Ev_ota_session_metrics_start \<notin> set es"
    using at_gate_trace by blast
  show ?thesis
  proof (cases "update_check_runs cfg env")
    case False
    then have "trace (world_of ?r) =
        trace s @ es @ (if connected_task env then [] else [Ev_led_set_color kLedColor_Red]) @
        [Ev_vTaskDelay_ms ota_check_interval_ms]"
      by (simp add: iteration_skips_check collaborator_defs es)
    from emitted_append [OF this] False es(2) show ?thesis by simp
  next
    case True
    show ?thesis
    proof (cases "ota_return_value (ota_beh env)")
      case None
      then have "trace (world_of ?r) =
          trace s @ es @ [Ev_log kLog_Info ''Checking for OTA Update'' [], Ev_ota_update] @
          concat (replicate ?n upload_available_events) @ download_complete_events"
        by (simp add: iteration_runs_check [OF True] download_complete_result after_callbacks_frame es)
      from emitted_append [OF this] True es(2) show ?thesis
        by (simp add: set_concat_replicate upload_available_events_def download_complete_events_def)
    next
      case (Some rv)
      obtain hs where hs: "trace (prv_memfault_ota_handle_rv cfg rv ?s2) = trace ?s2 @ hs"
        "Ev_ota_session_metrics_start \<notin> set hs"
        using handle_rv_no_start by blast
      from Some have "trace (world_of ?r) =
          trace s @ es @ [Ev_log kLog_Info ''Checking for OTA Update'' [], Ev_ota_update] @
          concat (replicate ?n upload_available_events) @ hs @ [Ev_vTaskDelay_ms ota_check_interval_ms]"
        by (simp add: iteration_runs_check [OF True] collaborator_defs hs after_callbacks_frame es)
      from emitted_append [OF this] True es(2) hs(2) show ?thesis
        by (simp add: set_concat_replicate upload_available_events_def)
    qed
  qed
qed

lemma iteration_closing_code:
  assumes "\<not> session_open s" and "update_check_runs cfg env"
      and "0 < update_available_calls (ota_beh env)" and "settles_session (ota_beh env)"
  shows "session_records (world_of (prv_ota_task_iteration cfg env s)) =
           session_records s @ [case ota_return_value (ota_beh env) of None \<Rightarrow> 0 | Some rv \<Rightarrow> rv]"
proof (cases "ota_return_value (ota_beh env)")
  case None
  with assms(3) show ?thesis
    by (simp add: iteration_runs_check [OF assms(2)] download_complete_result
          after_callbacks_frame at_gate_frame)
next
  case (Some rv)
  with assms(3,4) have neg: "sint rv < 0"
    by (simp add: settles_session_def)
  from Some assms(3) show ?thesis
    by (simp add: iteration_runs_check [OF assms(2)] handle_rv_failure [OF neg] collaborator_defs
          after_callbacks_frame at_gate_frame)
qed

lemma tracker_replay_append:
  "tracker_replay n (xs @ ys) = tracker_replay (tracker_replay n xs) ys"
  by (induction n xs rule: tracker_replay.induct) simp_all

lemma tracker_replay_le_1: "n \<le> 1 \<Longrightarrow> tracker_replay n es \<le> 1"
  by (induction n es rule: tracker_replay.induct) simp_all

lemma tracker_replay_quiet:
  "Ev_ota_session_metrics_start \<notin> set es \<Longrightarrow>
   \<forall>code. Ev_ota_session_metrics_end code \<notin> set es \<Longrightarrow> tracker_replay n es = n"
  by (induction n es rule: tracker_replay.induct) auto

lemma tracker_replay_upload_available:
  "n \<le> 1 \<Longrightarrow>
   tracker_replay n (concat (replicate k upload_available_events)) = (if k = 0 then n else 1)"
  by (induction k arbitrary: n)
     (simp_all add: tracker_replay_append upload_available_events_def)

lemma session_count_le_1: "session_count s \<le> 1"
  by (simp add: session_count_def)

lemma follows_trackerI:
  "trace s' = trace s @ es \<Longrightarrow> session_count s' = tracker_replay (session_count s) es \<Longrightarrow>
   follows_tracker s s'"
  by (simp add: follows_tracker_def emitted_def)

lemma follows_trackerD:
  assumes "follows_tracker s s'"
  shows "trace s' = trace s @ emitted s s'"
    and "session_count s' = tracker_replay (session_count s) (emitted s s')"
proof -
  from assms have "take (length (trace s)) (trace s') = trace s"
    by (simp add: follows_tracker_def)
  then have "trace s @ drop (length (trace s)) (trace s') = trace s'"
    by (metis append_take_drop_id)
  then show "trace s' = trace s @ emitted s s'"
    by (simp add: emitted_def)
  from assms show "session_count s' = tracker_replay (session_count s) (emitted s s')"
    by (simp add: follows_tracker_def)
qed

lemma follows_tracker_refl: "follows_tracker s s"
  by (simp add: follows_tracker_def emitted_def)

lemma follows_tracker_trans:
  assumes "follows_tracker s s'" and "follows_tracker s' s''"
  shows "follows_tracker s s''"
proof (rule follows_trackerI)
  show "trace s'' = trace s @ (emitted s s' @ emitted s' s'')"
    using follows_trackerD(1) [OF assms(1)] follows_trackerD(1) [OF assms(2)] by simp
  show "session_count s'' = tracker_replay (session_count s) (emitted s s' @ emitted s' s'')"
    using follows_trackerD(2) [OF assms(1)] follows_trackerD(2) [OF assms(2)]
    by (simp add: tracker_replay_append)
qed

lemma follows_tracker_quiet:
  assumes "trace s' = trace s @ es" and "Ev_ota_session_metrics_start \<notin> set es"
      and "\<forall>code. Ev_ota_session_metrics_end code \<notin> set es"
      and "session_open s' = session_open s"
  shows "follows_tracker s s'"
  using assms(1)
proof (rule follows_trackerI)
  show "session_count s' = tracker_replay (session_count s) es"
    using assms(2-4) by (simp add: tracker_replay_quiet session_count_def)
qed

lemma follows_at_gate: "follows_tracker s (at_gate cfg env s)"
proof -
  obtain es where "trace (at_gate cfg env s) = trace s @ es"
    "Ev_ota_session_metrics_start \<notin> set es" "\<forall>code. Ev_ota_session_metrics_end code \<notin> set es"
    using at_gate_trace by blast
  then show ?thesis
    by (rule follows_tracker_quiet) (simp add: at_gate_frame)
qed

lemma follows_after_callbacks: "follows_tracker s (after_callbacks beh s)"
proof (rule follows_trackerI)
  show "trace (after_callbacks beh s) =
          trace s @ ([Ev_log kLog_Info ''Checking for OTA Update'' [], Ev_ota_update] @
            concat (replicate (update_available_calls beh) upload_available_events))"
    by (simp add: after_callbacks_frame)
  show "session_count (after_callbacks beh s) =
          tracker_replay (session_count s)
            ([Ev_log kLog_Info ''Checking for OTA Update'' [], Ev_ota_update] @
             concat (replicate (update_available_calls beh) upload_available_events))"
    by (simp add: tracker_replay_upload_available session_count_le_1 after_callbacks_frame
          session_count_def)
qed

lemma follows_handle_rv: "follows_tracker s (prv_memfault_ota_handle_rv cfg rv s)"
proof (cases rv rule: rv_cases)
  case 1
  then show ?thesis
    by (intro follows_trackerI [where es =
          "(if CONFIG_MEMFAULT_METRICS_SYNC_SUCCESS cfg then [Ev_record_sync_success] else []) @
           [Ev_log kLog_Info ''Up to date!'' [], Ev_led_set_color kLedColor_Green]"])
       (simp_all add: handle_rv_no_update session_count_def)
next
  case 2
  then show ?thesis
    by (intro follows_trackerI [where es =
          "(if CONFIG_MEMFAULT_METRICS_SYNC_SUCCESS cfg then [Ev_record_sync_success] else []) @
           [Ev_log kLog_Info ''Update available!'' []]"])
       (simp_all add: handle_rv_update_pending session_count_def)
next
  case 3
  then show ?thesis
    by (intro follows_trackerI [where es =
          "(if CONFIG_MEMFAULT_METRICS_SYNC_SUCCESS cfg then [Ev_record_sync_failure] else []) @
           [Ev_log kLog_Error ''OTA update failed, rv=%d'' [rv],
            Ev_ota_session_metrics_end rv,
            Ev_trace_event_with_log ''ota_install_failure'' ''error code=%d'' rv,
            Ev_log_trigger_collection,
            Ev_led_set_color kLedColor_Red]"])
       (simp_all add: handle_rv_failure session_count_def)
next
  case 4
  then show ?thesis
    by (intro follows_trackerI [where es =
          "(if CONFIG_MEMFAULT_METRICS_SYNC_SUCCESS cfg then [Ev_record_sync_failure] else [])"])
       (simp_all add: handle_rv_other session_count_def)
qed

lemma follows_download_complete:
  "follows_tracker s (world_of (prv_handle_ota_download_complete s))"
  by (rule follows_trackerI [where es = download_complete_events])
     (simp_all add: download_complete_result download_complete_events_def session_count_def)

lemma follows_delay: "follows_tracker s (vTaskDelay_ms ms s)"
  by (rule follows_trackerI [where es = "[Ev_vTaskDelay_ms ms]"])
     (simp_all add: collaborator_defs session_count_def)

lemma follows_led: "follows_tracker s (led_set_color c s)"
  by (rule follows_trackerI [where es = "[Ev_led_set_color c]"])
     (simp_all add: collaborator_defs session_count_def)

lemma follows_iteration:
  "follows_tracker s (world_of (prv_ota_task_iteration cfg env s))"
proof (cases "update_check_runs cfg env")
  case False
  show ?thesis
  proof (cases "connected_task env")
    case True
    with False show ?thesis
      by (simp add: iteration_skips_check)
         (rule follows_tracker_trans [OF follows_at_gate follows_delay])
  next
    case c: False
    with False show ?thesis
      by (simp add: iteration_skips_check)
         (rule follows_tracker_trans [OF follows_at_gate
                 follows_tracker_trans [OF follows_led follows_delay]])
  qed
next
  case True
  show ?thesis
  proof (cases "ota_return_value (ota_beh env)")
    case None
    then show ?thesis
      by (simp add: iteration_runs_check [OF True])
         (rule follows_tracker_trans [OF follows_at_gate
                 follows_tracker_trans [OF follows_after_callbacks follows_download_complete]])
  next
    case (Some rv)
    then show ?thesis
      by (simp add: iteration_runs_check [OF True])
         (rule follows_tracker_trans [OF follows_at_gate
                 follows_tracker_trans [OF follows_after_callbacks
                   follows_tracker_trans [OF follows_handle_rv follows_delay]]])
  qed
qed

lemma follows_loop: "follows_tracker s (task_world (prv_ota_task_loop cfg envs s))"
proof (induction envs arbitrary: s)
  case Nil
  then show ?case by (simp add: follows_tracker_refl)
next
  case (Cons env envs)
  show ?case
  proof (cases "prv_ota_task_iteration cfg env s")
    case (Returns u s')
    with follows_iteration [of s cfg env] have "follows_tracker s s'" by simp
    from follows_tracker_trans [OF this Cons.IH [of s']] Returns show ?thesis by simp
  next
    case (Restarted s')
    with follows_iteration [of s cfg env] show ?thesis by simp
  qed
qed

lemma follows_task: "follows_tracker s (task_world (prv_ota_task cfg ticks envs s))"
proof -
  have "follows_tracker s (MEMFAULT_LOG_INFO_u32 ''OTA task up and running every %us.'' ticks s)"
    by (rule follows_trackerI
          [where es = "[Ev_log kLog_Info ''OTA task up and running every %us.'' [ticks]]"])
       (simp_all add: collaborator_defs session_count_def)
  from follows_tracker_trans [OF this follows_loop] show ?thesis
    by (simp add: prv_ota_task_def)
qed

lemma loop_settles:
  assumes "\<not> session_open s" and "\<forall>env \<in> set envs. settles_session (ota_beh env)"
  shows "\<not> session_open (task_world (prv_ota_task_loop cfg envs s))"
  using assms
proof (induction envs arbitrary: s)
  case Nil
  then show ?case by simp
next
  case (Cons env envs)
  from Cons.prems have step: "\<not> session_open (world_of (prv_ota_task_iteration cfg env s))"
    by (simp add: iteration_settles)
  show ?case
  proof (cases "prv_ota_task_iteration cfg env s")
    case (Returns u s')
    with step have "\<not> session_open s'" by simp
    with Cons.IH [of s'] Cons.prems Returns show ?thesis by simp
  next
    case (Restarted s')
    with step show ?thesis by simp
  qed
qed

lemma task_settles:
  assumes "\<not> session_open s" and "\<forall>env \<in> set envs. settles_session (ota_beh env)"
  shows "\<not> session_open (task_world (prv_ota_task cfg ticks envs s))"
  using assms by (simp add: prv_ota_task_def loop_settles collaborator_defs)

lemma iteration_stays_open:
  assumes "update_check_runs cfg env" and "0 < update_available_calls (ota_beh env)"
      and "ota_return_value (ota_beh env) = Some rv" and "\<not> sint rv < 0"
  shows "is_Returns (prv_ota_task_iteration cfg env s)"
    and "session_open (world_of (prv_ota_task_iteration cfg env s))"
  using assms
  by (simp_all add: iteration_returns_trace collaborator_defs handle_rv_session_open
        after_callbacks_frame)

lemmas example_defs =
  example_emit_def MEMFAULT_TASK_WATCHDOG_START_def MEMFAULT_TASK_WATCHDOG_STOP_def
  xSemaphoreTakeRecursive_def xSemaphoreGiveRecursive_def example_vTaskDelay_ms_def
  memfault_task_watchdog_start_def memfault_task_watchdog_stop_def

lemma example_iteration_acquires:
  "prv_example_task_iteration (Some d) s =
     Example_looping
       (s\<lparr>watchdog_entry := (watchdog_entry s)\<lparr>wd_state := Disarmed, last_reset_tick := clock s\<rparr>,
          clock := clock s + d + interval_ms,
          example_trace := example_trace s @
            [Ex_watchdog_start, Ex_semaphore_take, Ex_semaphore_give, Ex_watchdog_stop,
             Ex_vTaskDelay_ms interval_ms],
          checker_views := checker_views s @
            [((watchdog_entry s)\<lparr>wd_state := Armed, last_reset_tick := clock s\<rparr>,
              clock s, clock s + d),
             ((watchdog_entry s)\<lparr>wd_state := Disarmed, last_reset_tick := clock s\<rparr>,
              clock s + d, clock s + d + interval_ms)]\<rparr>)"
  by (simp add: prv_example_task_iteration_def example_defs Let_def)

lemma example_iteration_blocks:
  "prv_example_task_iteration None s =
     Example_blocked
       (s\<lparr>watchdog_entry := (watchdog_entry s)\<lparr>wd_state := Armed, last_reset_tick := clock s\<rparr>,
          example_trace := example_trace s @ [Ex_watchdog_start, Ex_semaphore_take]\<rparr>)"
  by (simp add: prv_example_task_iteration_def example_defs Let_def)

lemma new_views_append: "checker_views s' = checker_views s @ vs \<Longrightarrow> new_views s s' = vs"
  by (simp add: new_views_def)

lemma example_loop_views:
  "\<exists>vs. checker_views (example_world_of (prv_example_task_loop (map Some ds) s)) =
          checker_views s @ vs \<and>
        (\<forall>(e, a, b) \<in> set vs.
           wd_state e = Disarmed \<or> (\<exists>d \<in> set ds. b = last_reset_tick e + d))"
proof (induction ds arbitrary: s)
  case Nil
  then show ?case by simp
next
  case (Cons d ds)
  let ?s1 = "example_world_of (prv_example_task_iteration (Some d) s)"
  obtain vs where vs:
    "checker_views (example_world_of (prv_example_task_loop (map Some ds) ?s1)) =
       checker_views ?s1 @ vs"
    "\<forall>(e, a, b) \<in> set vs. wd_state e = Disarmed \<or> (\<exists>d \<in> set ds. b = last_reset_tick e + d)"
    using Cons.IH [of ?s1] by blast
  let ?new = "[((watchdog_entry s)\<lparr>wd_state := Armed, last_reset_tick := clock s\<rparr>,
              clock s, clock s + d),
             ((watchdog_entry s)\<lparr>wd_state := Disarmed, last_reset_tick := clock s\<rparr>,
              clock s + d, clock s + d + interval_ms)]"
  have "checker_views (example_world_of (prv_example_task_loop (map Some (d # ds)) s)) =
          checker_views s @ (?new @ vs)"
    using vs(1) by (simp add: example_iteration_acquires)
  moreover have "\<forall>(e, a, b) \<in> set (?new @ vs).
      wd_state e = Disarmed \<or> (\<exists>d' \<in> set (d # ds). b = last_reset_tick e + d')"
    using vs(2) by auto
  ultimately show ?case by blast
qed

lemma example_loop_looping:
  "prv_example_task_loop (map Some ds) s =
     Example_looping (example_world_of (prv_example_task_loop (map Some ds) s))"
  by (induction ds arbitrary: s) (simp_all add: example_iteration_acquires)

subsection \<open>The auto-join step\<close>

text \<open>
  Claim C10. If the device is already connected when the auto-join step runs, the step
  returns at once: it does not read the stored credentials, attempts no join, writes no log
  line and has no other effect. In the model the step returns the state it was given,
  trace included.
\<close>

theorem autojoin_connected_no_effect:
  "memfault_esp_port_wifi_autojoin True creds jr s = s"
  by (simp add: memfault_esp_port_wifi_autojoin_def)

text \<open>
  Claim C7, as stated, speaks of every invocation of the auto-join step: the stored
  credentials are read, and a join is attempted when both are present and non-empty. On a
  device that is already connected the guard at line 238 returns first: with both
  credentials stored, nothing is read and no join is attempted.
\<close>

theorem autojoin_every_invocation_counterexample:
  "Ev_wifi_load_creds \<notin>
     set (trace (memfault_esp_port_wifi_autojoin True (Some ''ssid'', Some ''secret'') True world0)) \<and>
   Ev_wifi_join ''ssid'' ''secret'' \<notin>
     set (trace (memfault_esp_port_wifi_autojoin True (Some ''ssid'', Some ''secret'') True world0))"
  by (simp add: memfault_esp_port_wifi_autojoin_def world0_def)

text \<open>
  Claim C7, amended. For every invocation of the auto-join step on a device that is not
  already connected: the stored credentials are read, once and first; if the SSID or the
  password is absent or empty, the only further effect is a debug log line (no join, no
  error); otherwise the join is attempted exactly once, and a failed join adds a debug log
  line and nothing else. In all cases the step changes nothing but the trace.
\<close>

theorem autojoin_not_connected:
  "memfault_esp_port_wifi_autojoin False (ssid, pass) jr s =
     s\<lparr>trace := trace s @
         (if ssid = None \<or> pass = None \<or> ssid = Some [] \<or> pass = Some []
          then [Ev_wifi_load_creds, Ev_log kLog_Debug ''No WiFi credentials found'' []]
          else [Ev_wifi_load_creds, Ev_log kLog_Debug ''Starting WiFi Autojoin ...'' [],
                Ev_wifi_join (the ssid) (the pass)] @
               (if jr then [] else [Ev_log kLog_Debug ''Failed to join WiFi network'' []]))\<rparr>"
  by (cases ssid; cases pass)
     (simp_all add: memfault_esp_port_wifi_autojoin_def collaborator_defs Let_def strnlen_64_eq_0)

theorem autojoin_not_connected_witness:
  "memfault_esp_port_wifi_autojoin False (Some ''ssid'', Some ''secret'') False world0 =
     world0\<lparr>trace :=
       [Ev_wifi_load_creds, Ev_log kLog_Debug ''Starting WiFi Autojoin ...'' [],
        Ev_wifi_join ''ssid'' ''secret'', Ev_log kLog_Debug ''Failed to join WiFi network'' []]\<rparr> \<and>
   memfault_esp_port_wifi_autojoin False (Some ''ssid'', Some []) True world0 =
     world0\<lparr>trace :=
       [Ev_wifi_load_creds, Ev_log kLog_Debug ''No WiFi credentials found'' []]\<rparr> \<and>
   memfault_esp_port_wifi_autojoin False (None, Some ''secret'') True world0 =
     world0\<lparr>trace :=
       [Ev_wifi_load_creds, Ev_log kLog_Debug ''No WiFi credentials found'' []]\<rparr>"
  using autojoin_not_connected [of "Some ''ssid''" "Some ''secret''" False world0]
        autojoin_not_connected [of "Some ''ssid''" "Some []" True world0]
        autojoin_not_connected [of None "Some ''secret''" True world0]
  by (simp add: world0_def)

subsection \<open>The connectivity gate\<close>

text \<open>
  Claim C4. For every iteration of the task loop in which the connectivity predicate
  answers false at the gate (line 272): the iteration sets the indicator to Red, does not
  invoke the update check, and opens no metrics session. The iteration returns, the
  session slot is as it was, and its last two actions are \<^verbatim>\<open>led_set_color(kLedColor_Red)\<close>
  and the delay. This holds for every configuration and whatever the auto-join step did.
\<close>

theorem gate_closed_tick:
  assumes "\<not> connected_task env"
  shows "is_Returns (prv_ota_task_iteration cfg env s) \<and>
         led (world_of (prv_ota_task_iteration cfg env s)) = kLedColor_Red \<and>
         Ev_ota_update \<notin> set (emitted s (world_of (prv_ota_task_iteration cfg env s))) \<and>
         Ev_ota_session_metrics_start \<notin> set (emitted s (world_of (prv_ota_task_iteration cfg env s))) \<and>
         session_open (world_of (prv_ota_task_iteration cfg env s)) = session_open s \<and>
         session_records (world_of (prv_ota_task_iteration cfg env s)) = session_records s \<and>
         ends_with (emitted s (world_of (prv_ota_task_iteration cfg env s)))
           [Ev_led_set_color kLedColor_Red, Ev_vTaskDelay_ms ota_check_interval_ms]"
proof -
  let ?r = "prv_ota_task_iteration cfg env s"
  from assms have skip: "\<not> update_check_runs cfg env"
    by (simp add: update_check_runs_def)
  have r: "?r = Returns () (vTaskDelay_ms ota_check_interval_ms
                   (led_set_color kLedColor_Red (at_gate cfg env s)))"
    using iteration_skips_check [OF skip] assms by simp
  obtain es where es: "trace (at_gate cfg env s) = trace s @ es"
    "Ev_ota_update \<notin> set es" "Ev_ota_session_metrics_start \<notin> set es"
    using at_gate_trace by blast
  have tr: "trace (world_of ?r) =
              trace s @ es @ [Ev_led_set_color kLedColor_Red, Ev_vTaskDelay_ms ota_check_interval_ms]"
    by (simp add: r es collaborator_defs)
  have em: "emitted s (world_of ?r) =
              es @ [Ev_led_set_color kLedColor_Red, Ev_vTaskDelay_ms ota_check_interval_ms]"
    using tr by (rule emitted_append)
  have "is_Returns ?r" by (simp add: r)
  moreover have "led (world_of ?r) = kLedColor_Red"
    by (simp add: r collaborator_defs)
  moreover have "Ev_ota_update \<notin> set (emitted s (world_of ?r))"
    by (simp add: em es)
  moreover have "Ev_ota_session_metrics_start \<notin> set (emitted s (world_of ?r))"
    by (simp add: em es)
  moreover have "session_open (world_of ?r) = session_open s"
    by (simp add: r collaborator_defs at_gate_frame)
  moreover have "session_records (world_of ?r) = session_records s"
    by (simp add: r collaborator_defs at_gate_frame)
  moreover have "ends_with (emitted s (world_of ?r))
                   [Ev_led_set_color kLedColor_Red, Ev_vTaskDelay_ms ota_check_interval_ms]"
    unfolding em by (rule ends_with_append)
  ultimately show ?thesis by blast
qed

theorem gate_closed_tick_witness:
  "\<not> connected_task tick_offline \<and>
   is_Returns (prv_ota_task_iteration config_all tick_offline world0) \<and>
   led (world_of (prv_ota_task_iteration config_all tick_offline world0)) = kLedColor_Red \<and>
   Ev_ota_update \<notin> set (emitted world0 (world_of (prv_ota_task_iteration config_all tick_offline world0))) \<and>
   \<not> session_open (world_of (prv_ota_task_iteration config_all tick_offline world0))"
  using gate_closed_tick [of tick_offline config_all world0]
  by (simp add: tick_offline_def world0_def)

subsection \<open>Download complete\<close>

text \<open>
  Claim C1. The download-complete callback, in every state, logs, ends the metrics session
  with code 0, then sets the reboot-imminent marker, then requests the restart, in this
  order; the restart is unconditional and the callback does not return (its result is
  \<open>Restarted\<close>). Hence, whenever the update check of an iteration reaches that callback, the
  iteration does not return to the loop, no session is open when the device restarts, the
  trace of the iteration ends with these four events, and the restart is requested once.
\<close>

theorem download_complete_closes_then_restarts:
  "prv_handle_ota_download_complete s =
     Restarted
       (s\<lparr>session_open := False,
          session_records := (if session_open s then session_records s @ [0] else session_records s),
          session_rejected := (if session_open s then session_rejected s else session_rejected s + 1),
          trace := trace s @
            [Ev_log kLog_Info ''OTA Update Complete, Rebooting System'' [],
             Ev_ota_session_metrics_end 0,
             Ev_reboot_mark_reset_imminent kMfltRebootReason_FirmwareUpdate,
             Ev_esp_restart]\<rparr>) \<and>
   (update_check_runs cfg env \<and> ota_return_value (ota_beh env) = None \<longrightarrow>
      \<not> is_Returns (prv_ota_task_iteration cfg env s) \<and>
      \<not> session_open (world_of (prv_ota_task_iteration cfg env s)) \<and>
      ends_with (emitted s (world_of (prv_ota_task_iteration cfg env s)))
        [Ev_log kLog_Info ''OTA Update Complete, Rebooting System'' [],
         Ev_ota_session_metrics_end 0,
         Ev_reboot_mark_reset_imminent kMfltRebootReason_FirmwareUpdate,
         Ev_esp_restart] \<and>
      length (filter (\<lambda>e. e = Ev_esp_restart) (emitted s (world_of (prv_ota_task_iteration cfg env s)))) = 1)"
proof (intro conjI impI)
  show "prv_handle_ota_download_complete s =
     Restarted
       (s\<lparr>session_open := False,
          session_records := (if session_open s then session_records s @ [0] else session_records s),
          session_rejected := (if session_open s then session_rejected s else session_rejected s + 1),
          trace := trace s @
            [Ev_log kLog_Info ''OTA Update Complete, Rebooting System'' [],
             Ev_ota_session_metrics_end 0,
             Ev_reboot_mark_reset_imminent kMfltRebootReason_FirmwareUpdate,
             Ev_esp_restart]\<rparr>)"
    by (simp add: download_complete_result download_complete_events_def)
next
  let ?r = "prv_ota_task_iteration cfg env s"
  let ?dc = "[Ev_log kLog_Info ''OTA Update Complete, Rebooting System'' [],
         Ev_ota_session_metrics_end 0,
         Ev_reboot_mark_reset_imminent kMfltRebootReason_FirmwareUpdate,
         Ev_esp_restart]"
  assume a: "update_check_runs cfg env \<and> ota_return_value (ota_beh env) = None"
  then have r: "?r = Restarted (world_of (prv_handle_ota_download_complete
                       (after_callbacks (ota_beh env) (at_gate cfg env s))))"
    by (simp add: iteration_runs_check)
  obtain es where es: "trace (at_gate cfg env s) = trace s @ es" "Ev_esp_restart \<notin> set es"
    using at_gate_trace by blast
  let ?pre = "es @ [Ev_log kLog_Info ''Checking for OTA Update'' [], Ev_ota_update] @
              concat (replicate (update_available_calls (ota_beh env)) upload_available_events)"
  have tr: "trace (world_of ?r) = trace s @ ?pre @ ?dc"
    by (simp add: r download_complete_result download_complete_events_def after_callbacks_frame es)
  have em: "emitted s (world_of ?r) = ?pre @ ?dc"
    using tr by (rule emitted_append)
  show "\<not> is_Returns ?r" by (simp add: r)
  show "\<not> session_open (world_of ?r)" by (simp add: r download_complete_result)
  show "ends_with (emitted s (world_of ?r)) ?dc"
    unfolding em by (rule ends_with_append)
  have "filter (\<lambda>e. e = Ev_esp_restart) ?pre = []"
    using es(2) by (auto simp add: filter_empty_conv set_concat_replicate upload_available_events_def)
  then show "length (filter (\<lambda>e. e = Ev_esp_restart) (emitted s (world_of ?r))) = 1"
    unfolding em by simp
qed

theorem download_complete_closes_then_restarts_witness:
  "update_check_runs config_all (tick_connected beh_download_completes) \<and>
   ota_return_value (ota_beh (tick_connected beh_download_completes)) = None \<and>
   prv_ota_task_iteration config_all (tick_connected beh_download_completes) world0 =
     Restarted
       \<lparr>led = kLedColor_Blue, session_open = False, session_records = [0], session_rejected = 0,
        trace =
          [Ev_metric_add ''PosterTaskNumSchedules'' 1,
           Ev_log kLog_Info ''Checking for OTA Update'' [],
           Ev_ota_update,
           Ev_led_set_color kLedColor_Blue,
           Ev_log kLog_Info ''Starting OTA download ...'' [],
           Ev_ota_session_metrics_start,
           Ev_log kLog_Info ''OTA Update Complete, Rebooting System'' [],
           Ev_ota_session_metrics_end 0,
           Ev_reboot_mark_reset_imminent kMfltRebootReason_FirmwareUpdate,
           Ev_esp_restart]\<rparr> \<and>
   ends_with (emitted world0 (world_of (prv_ota_task_iteration config_all (tick_connected beh_download_completes) world0)))
        [Ev_log kLog_Info ''OTA Update Complete, Rebooting System'' [],
         Ev_ota_session_metrics_end 0,
         Ev_reboot_mark_reset_imminent kMfltRebootReason_FirmwareUpdate,
         Ev_esp_restart]"
  using download_complete_closes_then_restarts
          [of world0 config_all "tick_connected beh_download_completes"]
  by (simp add: tick_inputs_defs update_check_runs_def prv_ota_task_iteration_def
        prv_memfault_ota_def memfault_esp_port_ota_update_def ota_handler_def
        prv_handle_ota_upload_available_def prv_handle_ota_download_complete_def
        memfault_esp_port_wifi_autojoin_def bind_exec_def collaborator_defs Let_def)

subsection \<open>The value the update check returns\<close>

text \<open>
  Claim C3. Whenever the update check of an iteration returns a negative value \<open>rv\<close>, the
  iteration ends the metrics session with exactly \<open>rv\<close>, emits the trace event, triggers
  the collection of the log buffer and sets the indicator to Red, in this order, and
  returns with the indicator Red and no session open. This holds whether or not the
  update-available callback was invoked during the call (any number of invocations): a
  session that was open is recorded as closed with code \<open>rv\<close>.
\<close>

theorem negative_result_tick:
  assumes "update_check_runs cfg env"
      and "ota_return_value (ota_beh env) = Some rv"
      and "sint rv < 0"
  shows "is_Returns (prv_ota_task_iteration cfg env s) \<and>
         led (world_of (prv_ota_task_iteration cfg env s)) = kLedColor_Red \<and>
         \<not> session_open (world_of (prv_ota_task_iteration cfg env s)) \<and>
         session_records (world_of (prv_ota_task_iteration cfg env s)) =
           (if session_open s \<or> 0 < update_available_calls (ota_beh env)
            then session_records s @ [rv] else session_records s) \<and>
         ends_with (emitted s (world_of (prv_ota_task_iteration cfg env s)))
           [Ev_log kLog_Error ''OTA update failed, rv=%d'' [rv],
            Ev_ota_session_metrics_end rv,
            Ev_trace_event_with_log ''ota_install_failure'' ''error code=%d'' rv,
            Ev_log_trigger_collection,
            Ev_led_set_color kLedColor_Red,
            Ev_vTaskDelay_ms ota_check_interval_ms]"
proof -
  let ?r = "prv_ota_task_iteration cfg env s"
  let ?s2 = "after_callbacks (ota_beh env) (at_gate cfg env s)"
  let ?suf = "[Ev_log kLog_Error ''OTA update failed, rv=%d'' [rv],
            Ev_ota_session_metrics_end rv,
            Ev_trace_event_with_log ''ota_install_failure'' ''error code=%d'' rv,
            Ev_log_trigger_collection,
            Ev_led_set_color kLedColor_Red,
            Ev_vTaskDelay_ms ota_check_interval_ms]"
  have r: "?r = Returns () (vTaskDelay_ms ota_check_interval_ms (prv_memfault_ota_handle_rv cfg rv ?s2))"
    using assms(1,2) by (rule iteration_returns_trace)
  note h = handle_rv_failure [OF assms(3), of cfg ?s2]
  have "\<exists>pre. trace (world_of ?r) = trace ?s2 @ pre @ ?suf"
    by (cases "CONFIG_MEMFAULT_METRICS_SYNC_SUCCESS cfg") (simp_all add: r h collaborator_defs)
  then obtain pre where tr2: "trace (world_of ?r) = trace ?s2 @ pre @ ?suf" ..
  obtain es where es: "trace (at_gate cfg env s) = trace s @ es"
    using at_gate_trace by blast
  have "trace (world_of ?r) =
          trace s @ (es @ [Ev_log kLog_Info ''Checking for OTA Update'' [], Ev_ota_update] @
            concat (replicate (update_available_calls (ota_beh env)) upload_available_events) @ pre) @ ?suf"
    by (simp add: tr2 after_callbacks_frame es)
  then have e: "ends_with (emitted s (world_of ?r)) ?suf"
    by (rule ends_with_emitted)
  have "is_Returns ?r" by (simp add: r)
  moreover have "led (world_of ?r) = kLedColor_Red"
    by (simp add: r h collaborator_defs)
  moreover have "\<not> session_open (world_of ?r)"
    by (simp add: r h collaborator_defs)
  moreover have "session_records (world_of ?r) =
           (if session_open s \<or> 0 < update_available_calls (ota_beh env)
            then session_records s @ [rv] else session_records s)"
    by (simp add: r h collaborator_defs after_callbacks_frame at_gate_frame)
  ultimately show ?thesis using e by blast
qed

theorem negative_result_tick_witness:
  "update_check_runs config_all (tick_connected beh_download_fails) \<and>
   ota_return_value (ota_beh (tick_connected beh_download_fails)) = Some (- 3) \<and>
   sint (- 3 :: c_int) < 0 \<and>
   0 < update_available_calls beh_download_fails \<and>
   led (world_of (prv_ota_task_iteration config_all (tick_connected beh_download_fails) world0)) = kLedColor_Red \<and>
   session_records (world_of (prv_ota_task_iteration config_all (tick_connected beh_download_fails) world0)) = [- 3] \<and>
   ota_return_value (ota_beh (tick_connected (Ota_return (- 3)))) = Some (- 3) \<and>
   update_available_calls (Ota_return (- 3)) = 0 \<and>
   led (world_of (prv_ota_task_iteration config_all (tick_connected (Ota_return (- 3))) world0)) = kLedColor_Red \<and>
   ends_with (emitted world0 (world_of (prv_ota_task_iteration config_all (tick_connected (Ota_return (- 3))) world0)))
           [Ev_log kLog_Error ''OTA update failed, rv=%d'' [- 3],
            Ev_ota_session_metrics_end (- 3),
            Ev_trace_event_with_log ''ota_install_failure'' ''error code=%d'' (- 3),
            Ev_log_trigger_collection,
            Ev_led_set_color kLedColor_Red,
            Ev_vTaskDelay_ms ota_check_interval_ms]"
  using negative_result_tick [of config_all "tick_connected beh_download_fails" "- 3" world0]
        negative_result_tick [of config_all "tick_connected (Ota_return (- 3))" "- 3" world0]
  by (simp add: tick_inputs_defs update_check_runs_def)

text \<open>
  Claim C5. For every iteration on a connected device whose update check returns 0, the
  indicator is set to Green, and no metrics session is closed during the iteration; a
  session is opened during the iteration exactly when the update-available callback was
  invoked. So when the update check reports "no update" without invoking a callback, the
  iteration neither opens nor closes a session and leaves the session slot as it was.
\<close>

theorem no_update_tick:
  assumes "update_check_runs cfg env"
      and "ota_return_value (ota_beh env) = Some 0"
  shows "is_Returns (prv_ota_task_iteration cfg env s) \<and>
         led (world_of (prv_ota_task_iteration cfg env s)) = kLedColor_Green \<and>
         ends_with (emitted s (world_of (prv_ota_task_iteration cfg env s)))
           [Ev_log kLog_Info ''Up to date!'' [],
            Ev_led_set_color kLedColor_Green,
            Ev_vTaskDelay_ms ota_check_interval_ms] \<and>
         (\<forall>code. Ev_ota_session_metrics_end code \<notin>
                   set (emitted s (world_of (prv_ota_task_iteration cfg env s)))) \<and>
         session_records (world_of (prv_ota_task_iteration cfg env s)) = session_records s \<and>
         (Ev_ota_session_metrics_start \<in> set (emitted s (world_of (prv_ota_task_iteration cfg env s)))
            \<longleftrightarrow> 0 < update_available_calls (ota_beh env)) \<and>
         session_open (world_of (prv_ota_task_iteration cfg env s)) =
           (session_open s \<or> 0 < update_available_calls (ota_beh env)) \<and>
         (update_available_calls (ota_beh env) = 0 \<longrightarrow>
            Ev_ota_session_metrics_start \<notin> set (emitted s (world_of (prv_ota_task_iteration cfg env s))) \<and>
            session_open (world_of (prv_ota_task_iteration cfg env s)) = session_open s \<and>
            session_rejected (world_of (prv_ota_task_iteration cfg env s)) = session_rejected s)"
proof -
  let ?r = "prv_ota_task_iteration cfg env s"
  let ?n = "update_available_calls (ota_beh env)"
  let ?s2 = "after_callbacks (ota_beh env) (at_gate cfg env s)"
  let ?sync = "if CONFIG_MEMFAULT_METRICS_SYNC_SUCCESS cfg then [Ev_record_sync_success] else []"
  let ?suf = "[Ev_log kLog_Info ''Up to date!'' [],
            Ev_led_set_color kLedColor_Green,
            Ev_vTaskDelay_ms ota_check_interval_ms]"
  have r: "?r = Returns () (vTaskDelay_ms ota_check_interval_ms (prv_memfault_ota_handle_rv cfg 0 ?s2))"
    using assms by (rule iteration_returns_trace)
  note h = handle_rv_no_update [of cfg ?s2]
  obtain es where es: "trace (at_gate cfg env s) = trace s @ es"
    "Ev_ota_session_metrics_start \<notin> set es" "\<forall>code. Ev_ota_session_metrics_end code \<notin> set es"
    using at_gate_trace by blast
  let ?pre = "es @ [Ev_log kLog_Info ''Checking for OTA Update'' [], Ev_ota_update] @
            concat (replicate ?n upload_available_events) @ ?sync"
  have tr: "trace (world_of ?r) = trace s @ ?pre @ ?suf"
    by (simp add: r h collaborator_defs after_callbacks_frame es)
  have em: "emitted s (world_of ?r) = ?pre @ ?suf"
    using tr by (rule emitted_append)
  have 1: "is_Returns ?r" by (simp add: r)
  have 2: "led (world_of ?r) = kLedColor_Green"
    by (simp add: r h collaborator_defs)
  have 3: "ends_with (emitted s (world_of ?r)) ?suf"
    unfolding em by (rule ends_with_append)
  have 4: "\<forall>code. Ev_ota_session_metrics_end code \<notin> set (emitted s (world_of ?r))"
    using es(3) by (simp add: em set_concat_replicate upload_available_events_def)
  have 5: "session_records (world_of ?r) = session_records s"
    by (simp add: r h collaborator_defs after_callbacks_frame at_gate_frame)
  have 6: "Ev_ota_session_metrics_start \<in> set (emitted s (world_of ?r)) \<longleftrightarrow> 0 < ?n"
    using es(2) by (simp add: em set_concat_replicate upload_available_events_def)
  have 7: "session_open (world_of ?r) = (session_open s \<or> 0 < ?n)"
    by (simp add: r h collaborator_defs after_callbacks_frame at_gate_frame)
  have 8: "?n = 0 \<longrightarrow> session_rejected (world_of ?r) = session_rejected s"
    by (simp add: r handle_rv_no_update collaborator_defs after_callbacks_def at_gate_frame)
  from 1 2 3 4 5 6 7 8 show ?thesis by simp
qed

theorem no_update_tick_witness:
  "update_check_runs config_all (tick_connected (Ota_return 0)) \<and>
   ota_return_value (ota_beh (tick_connected (Ota_return 0))) = Some 0 \<and>
   update_available_calls (ota_beh (tick_connected (Ota_return 0))) = 0 \<and>
   led (world_of (prv_ota_task_iteration config_all (tick_connected (Ota_return 0)) world0)) = kLedColor_Green \<and>
   Ev_ota_session_metrics_start \<notin>
     set (emitted world0 (world_of (prv_ota_task_iteration config_all (tick_connected (Ota_return 0)) world0))) \<and>
   \<not> session_open (world_of (prv_ota_task_iteration config_all (tick_connected (Ota_return 0)) world0)) \<and>
   session_records (world_of (prv_ota_task_iteration config_all (tick_connected (Ota_return 0)) world0)) = []"
  using no_update_tick [of config_all "tick_connected (Ota_return 0)" world0]
  by (simp add: tick_inputs_defs update_check_runs_def)

text \<open>
  Claim C6. When the update check returns 1, the handling of the return value changes
  nothing but the trace (the optional sync-success metric and one log line): the indicator,
  the session slot and its records are what they were when the call returned. For the
  iteration as a whole: it returns, the indicator is Blue if the update-available callback
  was invoked during the call (and otherwise what it was before the iteration), no session
  is ended, and a session the callback opened is still open.
\<close>

theorem update_pending_leaves_state:
  "prv_memfault_ota_handle_rv cfg 1 s2 =
     s2\<lparr>trace := trace s2 @
         (if CONFIG_MEMFAULT_METRICS_SYNC_SUCCESS cfg then [Ev_record_sync_success] else []) @
         [Ev_log kLog_Info ''Update available!'' []]\<rparr> \<and>
   (update_check_runs cfg env \<and> ota_return_value (ota_beh env) = Some 1 \<longrightarrow>
      is_Returns (prv_ota_task_iteration cfg env s) \<and>
      led (world_of (prv_ota_task_iteration cfg env s)) =
        (if 0 < update_available_calls (ota_beh env) then kLedColor_Blue else led s) \<and>
      session_open (world_of (prv_ota_task_iteration cfg env s)) =
        (session_open s \<or> 0 < update_available_calls (ota_beh env)) \<and>
      session_records (world_of (prv_ota_task_iteration cfg env s)) = session_records s \<and>
      (\<forall>code. Ev_ota_session_metrics_end code \<notin>
                set (emitted s (world_of (prv_ota_task_iteration cfg env s)))) \<and>
      ends_with (emitted s (world_of (prv_ota_task_iteration cfg env s)))
        [Ev_log kLog_Info ''Update available!'' [], Ev_vTaskDelay_ms ota_check_interval_ms])"
proof (intro conjI impI)
  show "prv_memfault_ota_handle_rv cfg 1 s2 =
     s2\<lparr>trace := trace s2 @
         (if CONFIG_MEMFAULT_METRICS_SYNC_SUCCESS cfg then [Ev_record_sync_success] else []) @
         [Ev_log kLog_Info ''Update available!'' []]\<rparr>"
    by (rule handle_rv_update_pending)
next
  let ?r = "prv_ota_task_iteration cfg env s"
  let ?n = "update_available_calls (ota_beh env)"
  let ?s2 = "after_callbacks (ota_beh env) (at_gate cfg env s)"
  let ?sync = "if CONFIG_MEMFAULT_METRICS_SYNC_SUCCESS cfg then [Ev_record_sync_success] else []"
  let ?suf = "[Ev_log kLog_Info ''Update available!'' [], Ev_vTaskDelay_ms ota_check_interval_ms]"
  assume a: "update_check_runs cfg env \<and> ota_return_value (ota_beh env) = Some 1"
  then have r: "?r = Returns () (vTaskDelay_ms ota_check_interval_ms (prv_memfault_ota_handle_rv cfg 1 ?s2))"
    by (simp add: iteration_returns_trace)
  note h = handle_rv_update_pending [of cfg ?s2]
  obtain es where es: "trace (at_gate cfg env s) = trace s @ es"
    "\<forall>code. Ev_ota_session_metrics_end code \<notin> set es"
    using at_gate_trace by blast
  let ?pre = "es @ [Ev_log kLog_Info ''Checking for OTA Update'' [], Ev_ota_update] @
            concat (replicate ?n upload_available_events) @ ?sync"
  have tr: "trace (world_of ?r) = trace s @ ?pre @ ?suf"
    by (simp add: r h collaborator_defs after_callbacks_frame es)
  have em: "emitted s (world_of ?r) = ?pre @ ?suf"
    using tr by (rule emitted_append)
  show "is_Returns ?r" by (simp add: r)
  show "led (world_of ?r) = (if 0 < ?n then kLedColor_Blue else led s)"
    by (simp add: r h collaborator_defs after_callbacks_frame at_gate_frame)
  show "session_open (world_of ?r) = (session_open s \<or> 0 < ?n)"
    by (simp add: r h collaborator_defs after_callbacks_frame at_gate_frame)
  show "session_records (world_of ?r) = session_records s"
    by (simp add: r h collaborator_defs after_callbacks_frame at_gate_frame)
  show "\<forall>code. Ev_ota_session_metrics_end code \<notin> set (emitted s (world_of ?r))"
    using es(2) by (simp add: em set_concat_replicate upload_available_events_def)
  show "ends_with (emitted s (world_of ?r)) ?suf"
    unfolding em by (rule ends_with_append)
qed

theorem update_pending_leaves_state_witness:
  "update_check_runs config_all (tick_connected beh_update_pending) \<and>
   ota_return_value (ota_beh (tick_connected beh_update_pending)) = Some 1 \<and>
   0 < update_available_calls (ota_beh (tick_connected beh_update_pending)) \<and>
   is_Returns (prv_ota_task_iteration config_all (tick_connected beh_update_pending) world0) \<and>
   led (world_of (prv_ota_task_iteration config_all (tick_connected beh_update_pending) world0)) = kLedColor_Blue \<and>
   session_open (world_of (prv_ota_task_iteration config_all (tick_connected beh_update_pending) world0)) \<and>
   session_records (world_of (prv_ota_task_iteration config_all (tick_connected beh_update_pending) world0)) = []"
  using update_pending_leaves_state [of config_all world0 "tick_connected beh_update_pending" world0]
  by (simp add: tick_inputs_defs update_check_runs_def)

text \<open>
  Claim C9, as stated, says that for a positive return value other than 1 the iteration
  records a sync-failure increment. The metric is compiled in only under
  \<^verbatim>\<open>CONFIG_MEMFAULT_METRICS_SYNC_SUCCESS\<close> (lines 204-211): without it, an update check
  returning 2 leaves no sync-failure event in the trace.
\<close>

theorem other_positive_result_counterexample:
  "0 < sint (2 :: c_int) \<and> (2 :: c_int) \<noteq> 1 \<and>
   prv_ota_task_iteration config_no_sync_metric (tick_connected (Ota_return 2)) world0 =
     Returns ()
       \<lparr>led = kLedColor_Off, session_open = False, session_records = [], session_rejected = 0,
        trace =
          [Ev_metric_add ''PosterTaskNumSchedules'' 1,
           Ev_log kLog_Info ''Checking for OTA Update'' [],
           Ev_ota_update,
           Ev_vTaskDelay_ms ota_check_interval_ms]\<rparr> \<and>
   Ev_record_sync_failure \<notin>
     set (trace (world_of (prv_ota_task_iteration config_no_sync_metric (tick_connected (Ota_return 2)) world0)))"
  by (simp add: tick_inputs_defs prv_ota_task_iteration_def
        prv_memfault_ota_def prv_memfault_ota_handle_rv_def memfault_esp_port_ota_update_def
        memfault_esp_port_wifi_autojoin_def bind_exec_def collaborator_defs Let_def)

text \<open>
  Claim C9, amended. If the update check returns a positive value other than 1, the
  handling of the return value records a sync-failure increment when
  \<^verbatim>\<open>CONFIG_MEMFAULT_METRICS_SYNC_SUCCESS\<close> is defined and does nothing at all otherwise. In
  both cases the indicator and the session slot are left as they were when the call
  returned, no session is ended, no trace event and no log collection is triggered, and
  the iteration goes on to its delay and returns to the loop.
\<close>

theorem other_positive_result:
  "(0 < sint rv \<and> rv \<noteq> 1 \<longrightarrow>
      prv_memfault_ota_handle_rv cfg rv s2 =
        (if CONFIG_MEMFAULT_METRICS_SYNC_SUCCESS cfg
         then s2\<lparr>trace := trace s2 @ [Ev_record_sync_failure]\<rparr> else s2)) \<and>
   (0 < sint rv \<and> rv \<noteq> 1 \<and> update_check_runs cfg env \<and> ota_return_value (ota_beh env) = Some rv \<longrightarrow>
      prv_ota_task_iteration cfg env s =
        Returns () (vTaskDelay_ms ota_check_interval_ms
          (prv_memfault_ota_handle_rv cfg rv (after_callbacks (ota_beh env) (at_gate cfg env s)))) \<and>
      led (world_of (prv_ota_task_iteration cfg env s)) =
        led (after_callbacks (ota_beh env) (at_gate cfg env s)) \<and>
      session_open (world_of (prv_ota_task_iteration cfg env s)) =
        session_open (after_callbacks (ota_beh env) (at_gate cfg env s)) \<and>
      session_records (world_of (prv_ota_task_iteration cfg env s)) =
        session_records (after_callbacks (ota_beh env) (at_gate cfg env s)) \<and>
      session_rejected (world_of (prv_ota_task_iteration cfg env s)) =
        session_rejected (after_callbacks (ota_beh env) (at_gate cfg env s)) \<and>
      emitted (after_callbacks (ota_beh env) (at_gate cfg env s))
              (world_of (prv_ota_task_iteration cfg env s)) =
        (if CONFIG_MEMFAULT_METRICS_SYNC_SUCCESS cfg then [Ev_record_sync_failure] else []) @
        [Ev_vTaskDelay_ms ota_check_interval_ms])"
proof (intro conjI impI)
  assume "0 < sint rv \<and> rv \<noteq> 1"
  then show "prv_memfault_ota_handle_rv cfg rv s2 =
        (if CONFIG_MEMFAULT_METRICS_SYNC_SUCCESS cfg
         then s2\<lparr>trace := trace s2 @ [Ev_record_sync_failure]\<rparr> else s2)"
    by (simp add: handle_rv_other)
next
  let ?r = "prv_ota_task_iteration cfg env s"
  let ?s2 = "after_callbacks (ota_beh env) (at_gate cfg env s)"
  assume a: "0 < sint rv \<and> rv \<noteq> 1 \<and> update_check_runs cfg env \<and> ota_return_value (ota_beh env) = Some rv"
  then show r: "?r = Returns () (vTaskDelay_ms ota_check_interval_ms (prv_memfault_ota_handle_rv cfg rv ?s2))"
    by (simp add: iteration_returns_trace)
  from a have h: "prv_memfault_ota_handle_rv cfg rv ?s2 =
     ?s2\<lparr>trace := trace ?s2 @
         (if CONFIG_MEMFAULT_METRICS_SYNC_SUCCESS cfg then [Ev_record_sync_failure] else [])\<rparr>"
    by (simp add: handle_rv_other)
  show "led (world_of ?r) = led ?s2" by (simp add: r h collaborator_defs)
  show "session_open (world_of ?r) = session_open ?s2" by (simp add: r h collaborator_defs)
  show "session_records (world_of ?r) = session_records ?s2" by (simp add: r h collaborator_defs)
  show "session_rejected (world_of ?r) = session_rejected ?s2" by (simp add: r h collaborator_defs)
  have "trace (world_of ?r) = trace ?s2 @
        (if CONFIG_MEMFAULT_METRICS_SYNC_SUCCESS cfg then [Ev_record_sync_failure] else []) @
        [Ev_vTaskDelay_ms ota_check_interval_ms]"
    by (simp add: r h collaborator_defs)
  then show "emitted ?s2 (world_of ?r) =
        (if CONFIG_MEMFAULT_METRICS_SYNC_SUCCESS cfg then [Ev_record_sync_failure] else []) @
        [Ev_vTaskDelay_ms ota_check_interval_ms]"
    by (rule emitted_append)
qed

theorem other_positive_result_witness:
  "0 < sint (2 :: c_int) \<and> (2 :: c_int) \<noteq> 1 \<and>
   update_check_runs config_all (tick_connected (Ota_return 2)) \<and>
   ota_return_value (ota_beh (tick_connected (Ota_return 2))) = Some 2 \<and>
   prv_memfault_ota_handle_rv config_all 2 world0 = world0\<lparr>trace := [Ev_record_sync_failure]\<rparr> \<and>
   prv_memfault_ota_handle_rv config_no_sync_metric 2 world0 = world0 \<and>
   is_Returns (prv_ota_task_iteration config_all (tick_connected (Ota_return 2)) world0) \<and>
   led (world_of (prv_ota_task_iteration config_all (tick_connected (Ota_return 2)) world0)) = kLedColor_Off"
  using other_positive_result [of 2 config_all world0 "tick_connected (Ota_return 2)" world0]
        other_positive_result [of 2 config_no_sync_metric world0 "tick_connected (Ota_return 2)" world0]
  by (simp add: tick_inputs_defs update_check_runs_def after_callbacks_def at_gate_def
        prv_memfault_ota_handle_rv_def memfault_esp_port_wifi_autojoin_def collaborator_defs)

subsection \<open>The metrics session across iterations\<close>

text \<open>
  Claim C2, as stated, says that every session opened within an iteration is closed before
  the iteration ends. When the update check invokes the update-available callback and then
  returns 1, the branch at lines 216-217 only logs: the iteration ends, after its delay,
  with the session open. A second such iteration calls \<^verbatim>\<open>ota_session_metrics_start\<close> while
  that session is still open, and the tracker rejects the call.
\<close>

theorem session_left_open_counterexample:
  "prv_ota_task_iteration config_all (tick_connected beh_update_pending) world0 =
     Returns ()
       \<lparr>led = kLedColor_Blue, session_open = True, session_records = [], session_rejected = 0,
        trace =
          [Ev_metric_add ''PosterTaskNumSchedules'' 1,
           Ev_log kLog_Info ''Checking for OTA Update'' [],
           Ev_ota_update,
           Ev_led_set_color kLedColor_Blue,
           Ev_log kLog_Info ''Starting OTA download ...'' [],
           Ev_ota_session_metrics_start,
           Ev_record_sync_success,
           Ev_log kLog_Info ''Update available!'' [],
           Ev_vTaskDelay_ms ota_check_interval_ms]\<rparr> \<and>
   session_open (task_world (prv_ota_task config_all 3600000
     [tick_connected beh_update_pending, tick_connected beh_update_pending] world0)) \<and>
   session_rejected (task_world (prv_ota_task config_all 3600000
     [tick_connected beh_update_pending, tick_connected beh_update_pending] world0)) = 1"
  by (simp add: tick_inputs_defs prv_ota_task_def prv_ota_task_iteration_def
        prv_memfault_ota_def prv_memfault_ota_handle_rv_def memfault_esp_port_ota_update_def
        ota_handler_def prv_handle_ota_upload_available_def
        memfault_esp_port_wifi_autojoin_def bind_exec_def collaborator_defs Let_def)

text \<open>
  Claim C2, amended, in six parts. (1) At most one session is open at any time: the
  tracker accepts a start only when no session is open, so serving the session calls of
  any prefix of the trace of a run of the task leaves at most one session open; (2) and the
  session slot at the end of a run, of any number of iterations, is what the tracker
  arrives at on the trace of that run. (3) A session is opened only by the update-available
  callback: an iteration whose trace has a session start ran the update check, and the
  check invoked that callback. (4) For every sequence of iterations that starts with no
  session open and in which the update check, once it has invoked the update-available
  callback, either reaches the download-complete callback or returns a negative value, no
  session is open at the end of any iteration; (5) and the session such an iteration opens
  is closed within it, with code 0 on download completion and with the negative return
  value on failure. (6) When the update check returns a non-negative value after it has
  invoked the update-available callback, the iteration returns with the session open.
\<close>

theorem sessions_settled_at_tick_boundaries:
  "tracker_replay (session_count s)
     (take k (emitted s (task_world (prv_ota_task cfg ticks envs s)))) \<le> 1 \<and>
   session_count (task_world (prv_ota_task cfg ticks envs s)) =
     tracker_replay (session_count s) (emitted s (task_world (prv_ota_task cfg ticks envs s))) \<and>
   (Ev_ota_session_metrics_start \<in> set (emitted s (world_of (prv_ota_task_iteration cfg env s))) \<longrightarrow>
      update_check_runs cfg env \<and> 0 < update_available_calls (ota_beh env)) \<and>
   (\<not> session_open s \<and> (\<forall>env \<in> set envs. settles_session (ota_beh env)) \<longrightarrow>
      \<not> session_open (task_world (prv_ota_task cfg ticks (take n envs) s))) \<and>
   (\<not> session_open s \<and> update_check_runs cfg env \<and> 0 < update_available_calls (ota_beh env) \<and>
    settles_session (ota_beh env) \<longrightarrow>
      \<not> session_open (world_of (prv_ota_task_iteration cfg env s)) \<and>
      session_records (world_of (prv_ota_task_iteration cfg env s)) =
        session_records s @ [case ota_return_value (ota_beh env) of None \<Rightarrow> 0 | Some rv \<Rightarrow> rv]) \<and>
   (update_check_runs cfg env \<and> 0 < update_available_calls (ota_beh env) \<and>
    ota_return_value (ota_beh env) = Some rv \<and> 0 \<le> sint rv \<longrightarrow>
      is_Returns (prv_ota_task_iteration cfg env s) \<and>
      session_open (world_of (prv_ota_task_iteration cfg env s)))"
proof (intro conjI impI)
  show "tracker_replay (session_count s)
     (take k (emitted s (task_world (prv_ota_task cfg ticks envs s)))) \<le> 1"
    by (rule tracker_replay_le_1) (rule session_count_le_1)
next
  show "session_count (task_world (prv_ota_task cfg ticks envs s)) =
     tracker_replay (session_count s) (emitted s (task_world (prv_ota_task cfg ticks envs s)))"
    using follows_task by (rule follows_trackerD(2))
next
  assume "Ev_ota_session_metrics_start \<in> set (emitted s (world_of (prv_ota_task_iteration cfg env s)))"
  then show "update_check_runs cfg env" and "0 < update_available_calls (ota_beh env)"
    by (simp_all add: iteration_start_iff)
next
  assume a: "\<not> session_open s \<and> (\<forall>env \<in> set envs. settles_session (ota_beh env))"
  then have "\<forall>env \<in> set (take n envs). settles_session (ota_beh env)"
    by (auto dest: in_set_takeD)
  with a show "\<not> session_open (task_world (prv_ota_task cfg ticks (take n envs) s))"
    by (simp add: task_settles)
next
  assume a: "\<not> session_open s \<and> update_check_runs cfg env \<and>
             0 < update_available_calls (ota_beh env) \<and> settles_session (ota_beh env)"
  then show "\<not> session_open (world_of (prv_ota_task_iteration cfg env s))"
    by (simp add: iteration_settles)
  from a show "session_records (world_of (prv_ota_task_iteration cfg env s)) =
        session_records s @ [case ota_return_value (ota_beh env) of None \<Rightarrow> 0 | Some rv \<Rightarrow> rv]"
    by (simp add: iteration_closing_code)
next
  assume a: "update_check_runs cfg env \<and> 0 < update_available_calls (ota_beh env) \<and>
    ota_return_value (ota_beh env) = Some rv \<and> 0 \<le> sint rv"
  then have "\<not> sint rv < 0" by simp
  with a show "is_Returns (prv_ota_task_iteration cfg env s)"
    and "session_open (world_of (prv_ota_task_iteration cfg env s))"
    by (simp_all add: iteration_stays_open)
qed

theorem sessions_settled_at_tick_boundaries_witness:
  "\<not> session_open world0 \<and>
   settles_session (ota_beh tick_offline) \<and>
   settles_session (ota_beh (tick_connected beh_download_fails)) \<and>
   settles_session (ota_beh (tick_connected (Ota_return 0))) \<and>
   \<not> session_open (task_world (prv_ota_task config_all 3600000
       [tick_offline, tick_connected beh_download_fails, tick_connected (Ota_return 0)] world0)) \<and>
   \<not> session_open (task_world (prv_ota_task config_all 3600000
       [tick_offline, tick_connected beh_download_fails] world0)) \<and>
   session_count (task_world (prv_ota_task config_all 3600000
       [tick_offline, tick_connected beh_download_fails, tick_connected (Ota_return 0)] world0)) = 0 \<and>
   update_check_runs config_all (tick_connected beh_download_fails) \<and>
   0 < update_available_calls (ota_beh (tick_connected beh_download_fails)) \<and>
   Ev_ota_session_metrics_start \<in>
     set (emitted world0 (world_of (prv_ota_task_iteration config_all (tick_connected beh_download_fails) world0))) \<and>
   session_records (world_of (prv_ota_task_iteration config_all (tick_connected beh_download_fails) world0)) = [- 3] \<and>
   update_check_runs config_all (tick_connected beh_update_pending) \<and>
   0 < update_available_calls (ota_beh (tick_connected beh_update_pending)) \<and>
   ota_return_value (ota_beh (tick_connected beh_update_pending)) = Some 1 \<and>
   0 \<le> sint (1 :: c_int) \<and>
   is_Returns (prv_ota_task_iteration config_all (tick_connected beh_update_pending) world0) \<and>
   session_open (world_of (prv_ota_task_iteration config_all (tick_connected beh_update_pending) world0))"
  using sessions_settled_at_tick_boundaries
          [where s = world0 and cfg = config_all and ticks = 3600000 and n = 3 and k = 0
             and envs = "[tick_offline, tick_connected beh_download_fails, tick_connected (Ota_return 0)]"
             and env = "tick_connected beh_download_fails" and rv = 0]
        sessions_settled_at_tick_boundaries
          [where s = world0 and cfg = config_all and ticks = 3600000 and n = 2 and k = 0
             and envs = "[tick_offline, tick_connected beh_download_fails, tick_connected (Ota_return 0)]"
             and env = "tick_connected beh_update_pending" and rv = 1]
        iteration_start_iff [of world0 config_all "tick_connected beh_download_fails"]
  by (simp add: tick_inputs_defs update_check_runs_def settles_session_def session_count_def)

subsection \<open>The task watchdog example\<close>

text \<open>
  Claim C8, as stated, says that in every iteration the example task acquires and releases
  its lock and then calls the watchdog start again before the next run of the checker. In
  the source the start comes first and the call that follows the release is the stop
  (line 317): in an iteration that begins at time 0 and waits 10 ms for the lock, the entry
  is disarmed from time 10 and through the 250 ms of the delay, with the stamp of time 0.
  A checker run during the delay comes before any new start and reads an entry that was
  not stamped again after the release.
\<close>

theorem example_task_restamp_counterexample:
  "prv_example_task_iteration (Some 10) example_world0 =
     Example_looping
       \<lparr>watchdog_entry = \<lparr>wd_state = Disarmed, last_reset_tick = 0\<rparr>,
        clock = 260,
        example_trace =
          [Ex_watchdog_start, Ex_semaphore_take, Ex_semaphore_give, Ex_watchdog_stop,
           Ex_vTaskDelay_ms 250],
        checker_views =
          [(\<lparr>wd_state = Armed, last_reset_tick = 0\<rparr>, 0, 10),
           (\<lparr>wd_state = Disarmed, last_reset_tick = 0\<rparr>, 10, 260)]\<rparr>"
  by (simp add: prv_example_task_iteration_def example_defs Let_def example_world0_def
        interval_ms_def)

text \<open>
  Claim C8, amended. In every iteration of its loop in which it obtains the lock, the
  example task calls the watchdog start for its entry (arming it and stamping
  \<open>last_reset_tick\<close> with the current time), then acquires and releases its recursive lock,
  then calls the watchdog stop and sleeps 250 ms: the entry is armed only while the task
  waits for the lock. So, over any number of iterations, a task that never waits longer
  than the watchdog timeout for its lock keeps looping and is not flagged as stuck by a
  checker run at any instant of any of its blocking calls; a wait longer than the timeout
  is flagged by a checker run at the end of that wait; and a task that never obtains the
  lock stays in the take with its entry armed and is flagged by every checker run later
  than the timeout after the start.
\<close>

theorem example_task_watchdog_cycle:
  "prv_example_task_iteration (Some d) s =
     Example_looping
       (s\<lparr>watchdog_entry := (watchdog_entry s)\<lparr>wd_state := Disarmed, last_reset_tick := clock s\<rparr>,
          clock := clock s + d + interval_ms,
          example_trace := example_trace s @
            [Ex_watchdog_start, Ex_semaphore_take, Ex_semaphore_give, Ex_watchdog_stop,
             Ex_vTaskDelay_ms interval_ms],
          checker_views := checker_views s @
            [((watchdog_entry s)\<lparr>wd_state := Armed, last_reset_tick := clock s\<rparr>,
              clock s, clock s + d),
             ((watchdog_entry s)\<lparr>wd_state := Disarmed, last_reset_tick := clock s\<rparr>,
              clock s + d, clock s + d + interval_ms)]\<rparr>) \<and>
   ((\<forall>d \<in> set ds. d \<le> timeout) \<longrightarrow>
      prv_example_task_loop (map Some ds) s =
        Example_looping (example_world_of (prv_example_task_loop (map Some ds) s)) \<and>
      (\<forall>(e, a, b) \<in> set (new_views s (example_world_of (prv_example_task_loop (map Some ds) s))).
         \<forall>t. a \<le> t \<and> t \<le> b \<longrightarrow> \<not> watchdog_entry_stuck timeout t e)) \<and>
   (timeout < d \<longrightarrow>
      watchdog_entry_stuck timeout (clock s + d)
        ((watchdog_entry s)\<lparr>wd_state := Armed, last_reset_tick := clock s\<rparr>)) \<and>
   prv_example_task_iteration None s =
     Example_blocked
       (s\<lparr>watchdog_entry := (watchdog_entry s)\<lparr>wd_state := Armed, last_reset_tick := clock s\<rparr>,
          example_trace := example_trace s @ [Ex_watchdog_start, Ex_semaphore_take]\<rparr>) \<and>
   (clock s + timeout < t \<longrightarrow>
      watchdog_entry_stuck timeout t
        (watchdog_entry (example_world_of (prv_example_task_iteration None s))))"
proof (intro conjI impI)
  show "prv_example_task_iteration (Some d) s =
     Example_looping
       (s\<lparr>watchdog_entry := (watchdog_entry s)\<lparr>wd_state := Disarmed, last_reset_tick := clock s\<rparr>,
          clock := clock s + d + interval_ms,
          example_trace := example_trace s @
            [Ex_watchdog_start, Ex_semaphore_take, Ex_semaphore_give, Ex_watchdog_stop,
             Ex_vTaskDelay_ms interval_ms],
          checker_views := checker_views s @
            [((watchdog_entry s)\<lparr>wd_state := Armed, last_reset_tick := clock s\<rparr>,
              clock s, clock s + d),
             ((watchdog_entry s)\<lparr>wd_state := Disarmed, last_reset_tick := clock s\<rparr>,
              clock s + d, clock s + d + interval_ms)]\<rparr>)"
    by (rule example_iteration_acquires)
next
  show "prv_example_task_loop (map Some ds) s =
        Example_looping (example_world_of (prv_example_task_loop (map Some ds) s))"
    by (rule example_loop_looping)
next
  assume bound: "\<forall>d \<in> set ds. d \<le> timeout"
  let ?s' = "example_world_of (prv_example_task_loop (map Some ds) s)"
  obtain vs where vs: "checker_views ?s' = checker_views s @ vs"
    "\<forall>(e, a, b) \<in> set vs. wd_state e = Disarmed \<or> (\<exists>d \<in> set ds. b = last_reset_tick e + d)"
    using example_loop_views by blast
  have nv: "new_views s ?s' = vs"
    using vs(1) by (rule new_views_append)
  show "\<forall>(e, a, b) \<in> set (new_views s ?s').
          \<forall>t. a \<le> t \<and> t \<le> b \<longrightarrow> \<not> watchdog_entry_stuck timeout t e"
    unfolding nv
  proof (intro ballI, clarify)
    fix e a b t
    assume v: "(e, a, b) \<in> set vs" and t: "a \<le> t" "t \<le> b"
      and stuck: "watchdog_entry_stuck timeout t e"
    from stuck have armed: "wd_state e = Armed" and late: "timeout < t - last_reset_tick e"
      by (simp_all add: watchdog_entry_stuck_def)
    from vs(2) v armed obtain d where "d \<in> set ds" "b = last_reset_tick e + d"
      by fastforce
    with bound t late show False by fastforce
  qed
next
  assume "timeout < d"
  then show "watchdog_entry_stuck timeout (clock s + d)
        ((watchdog_entry s)\<lparr>wd_state := Armed, last_reset_tick := clock s\<rparr>)"
    by (simp add: watchdog_entry_stuck_def)
next
  show "prv_example_task_iteration None s =
     Example_blocked
       (s\<lparr>watchdog_entry := (watchdog_entry s)\<lparr>wd_state := Armed, last_reset_tick := clock s\<rparr>,
          example_trace := example_trace s @ [Ex_watchdog_start, Ex_semaphore_take]\<rparr>)"
    by (rule example_iteration_blocks)
next
  assume "clock s + timeout < t"
  then show "watchdog_entry_stuck timeout t
        (watchdog_entry (example_world_of (prv_example_task_iteration None s)))"
    by (simp add: example_iteration_blocks watchdog_entry_stuck_def)
qed

theorem example_task_watchdog_cycle_witness:
  "(10 :: nat) \<le> 5000 \<and> (0 :: nat) \<le> 5000 \<and> (5000 :: nat) \<le> 5000 \<and>
   prv_example_task_loop (map Some [10, 0, 5000]) example_world0 =
     Example_looping (example_world_of (prv_example_task_loop (map Some [10, 0, 5000]) example_world0)) \<and>
   new_views example_world0 (example_world_of (prv_example_task_loop (map Some [10, 0, 5000]) example_world0)) =
     [(\<lparr>wd_state = Armed, last_reset_tick = 0\<rparr>, 0, 10),
      (\<lparr>wd_state = Disarmed, last_reset_tick = 0\<rparr>, 10, 260),
      (\<lparr>wd_state = Armed, last_reset_tick = 260\<rparr>, 260, 260),
      (\<lparr>wd_state = Disarmed, last_reset_tick = 260\<rparr>, 260, 510),
      (\<lparr>wd_state = Armed, last_reset_tick = 510\<rparr>, 510, 5510),
      (\<lparr>wd_state = Disarmed, last_reset_tick = 510\<rparr>, 5510, 5760)] \<and>
   \<not> watchdog_entry_stuck 5000 5510 \<lparr>wd_state = Armed, last_reset_tick = 510\<rparr> \<and>
   (5000 :: nat) < 5001 \<and>
   watchdog_entry_stuck 5000 5001 \<lparr>wd_state = Armed, last_reset_tick = 0\<rparr> \<and>
   clock example_world0 + 5000 < 5001 \<and>
   watchdog_entry_stuck 5000 5001
     (watchdog_entry (example_world_of (prv_example_task_iteration None example_world0)))"
  using example_task_watchdog_cycle [of 5001 example_world0 "[10, 0, 5000]" 5000 5001]
  by (simp add: example_world0_def interval_ms_def new_views_def watchdog_entry_stuck_def
        prv_example_task_iteration_def example_defs Let_def)

end
